theory Spec2Isabelle
  imports Complex_Main
begin

section \<open>The cooldown tracker of bot.py\<close>

text \<open>
  \<^verbatim>\<open>
  COOLDOWN_SECONDS = 8
  _last_ad_at: dict[int, float] = {}  # user_id -> timestamp

  def _cooldown_ok(user_id: int) -> bool:
      now = time.time()
      last = _last_ad_at.get(user_id, 0)
      if now - last >= COOLDOWN_SECONDS:
          _last_ad_at[user_id] = now
          return True
      return False
  \<close>
  The module-level dictionary is passed in and returned. The reading of the clock
  (\<^verbatim>\<open>time.time()\<close>) is the parameter \<open>now\<close>: seconds since the Unix epoch, a real
  number here (the rounding of Python's floats is not modelled). User identifiers are
  Python's unbounded integers.
\<close>

type_synonym cooldown_map = "int \<rightharpoonup> real"

definition COOLDOWN_SECONDS :: real where
  "COOLDOWN_SECONDS = 8"

definition last_ad_at_init :: cooldown_map where
  "last_ad_at_init = Map.empty"

definition dict_get_default :: "('k \<rightharpoonup> 'v) \<Rightarrow> 'k \<Rightarrow> 'v \<Rightarrow> 'v" where
  "dict_get_default d k dflt = (case d k of None \<Rightarrow> dflt | Some v \<Rightarrow> v)"

definition cooldown_ok :: "cooldown_map \<Rightarrow> int \<Rightarrow> real \<Rightarrow> bool \<times> cooldown_map" where
  "cooldown_ok last_ad_at user_id now =
     (let last = dict_get_default last_ad_at user_id 0
      in if now - last \<ge> COOLDOWN_SECONDS
         then (True, last_ad_at(user_id \<mapsto> now))
         else (False, last_ad_at))"

text \<open>
  Successive calls of \<^verbatim>\<open>_cooldown_ok\<close> for one user, at the clock readings of the
  list: the answers in order, and the map after the last call.
\<close>

fun cooldown_calls :: "cooldown_map \<Rightarrow> int \<Rightarrow> real list \<Rightarrow> bool list \<times> cooldown_map" where
  "cooldown_calls m user_id [] = ([], m)"
| "cooldown_calls m user_id (t # ts) =
     (case cooldown_ok m user_id t of
        (ok, m') \<Rightarrow>
          (case cooldown_calls m' user_id ts of
             (oks, m'') \<Rightarrow> (ok # oks, m'')))"

section \<open>Python values\<close>

text \<open>
  What \<^verbatim>\<open>resp.json()\<close> returns: \<open>PNone\<close> is JSON's null, \<open>PDict\<close> holds the items of
  a dict whose keys are strings (a lookup takes the first item with the key; the order
  of the items is representation only). The float literals NaN and Infinity are not
  modelled. \<open>truthy\<close> is Python's truth test, the one \<^verbatim>\<open>not x\<close>, \<^verbatim>\<open>x or y\<close> and
  \<^verbatim>\<open>if x\<close> apply.
\<close>

datatype pyval =
    PNone
  | PBool bool
  | PInt int
  | PFloat real
  | PStr string
  | PList "pyval list"
  | PDict "(string \<times> pyval) list"

type_synonym pydict = "(string \<times> pyval) list"

fun truthy :: "pyval \<Rightarrow> bool" where
  "truthy PNone = False"
| "truthy (PBool b) = b"
| "truthy (PInt i) = (i \<noteq> 0)"
| "truthy (PFloat r) = (r \<noteq> 0)"
| "truthy (PStr s) = (s \<noteq> [])"
| "truthy (PList xs) = (xs \<noteq> [])"
| "truthy (PDict kvs) = (kvs \<noteq> [])"

text \<open>\<^verbatim>\<open>isinstance(data, dict)\<close>, giving the dict.\<close>

fun as_dict :: "pyval \<Rightarrow> pydict option" where
  "as_dict (PDict d) = Some d"
| "as_dict _ = None"

text \<open>\<^verbatim>\<open>d.get(k)\<close>: None for a missing key.\<close>

definition dict_get :: "pydict \<Rightarrow> string \<Rightarrow> pyval" where
  "dict_get d k = dict_get_default (map_of d) k PNone"

text \<open>\<^verbatim>\<open>x or y\<close>\<close>

definition py_or :: "pyval \<Rightarrow> pyval \<Rightarrow> pyval" where
  "py_or x y = (if truthy x then x else y)"

text \<open>
  The exceptions of the model: what \<^verbatim>\<open>requests.get\<close> and \<^verbatim>\<open>resp.json()\<close> raise
  (transport failures, timeouts, a body that is not JSON), the KeyError of a dict
  subscript, and the AttributeError of a method call on None. All of them are
  subclasses of Python's \<^verbatim>\<open>Exception\<close>, the class the handler of \<^verbatim>\<open>_fetch_ad\<close> catches. Signals of the interpreter that are not
  (KeyboardInterrupt, SystemExit) are outside the model.
\<close>

datatype exn =
    ConnectionError
  | Timeout
  | RequestException string
  | JSONDecodeError
  | KeyError string
  | AttributeError

text \<open>\<^verbatim>\<open>d[k]\<close>\<close>

definition getitem :: "pydict \<Rightarrow> string \<Rightarrow> exn + pyval" where
  "getitem d k = (case map_of d k of None \<Rightarrow> Inl (KeyError k) | Some v \<Rightarrow> Inr v)"

text \<open>\<^verbatim>\<open>str(n)\<close> for an integer, as the f-string of the request URL formats it.\<close>

fun str_nat :: "nat \<Rightarrow> string" where
  "str_nat n =
     (if n < 10 then [''0123456789'' ! n]
      else str_nat (n div 10) @ [''0123456789'' ! (n mod 10)])"

declare str_nat.simps [simp del]

definition str_int :: "int \<Rightarrow> string" where
  "str_int i = (if i < 0 then CHR ''-'' # str_nat (nat (- i)) else str_nat (nat i))"

section \<open>The outside world: HTTP, the chat platform, the log\<close>

text \<open>
  \<^verbatim>\<open>requests.get(url, timeout=t)\<close> either raises or returns a response. Of the
  response the code reads \<^verbatim>\<open>status_code\<close>, \<^verbatim>\<open>text\<close> and \<^verbatim>\<open>json()\<close>; the last one
  raises when the body is not JSON. The world is a function from the URL and the
  timeout (in seconds) to that outcome.
\<close>

record response =
  status_code :: int
  resp_text :: string
  resp_json :: "exn + pyval"

datatype http_result = Raises exn | Responds response

type_synonym http = "string \<Rightarrow> nat \<Rightarrow> http_result"

text \<open>
  Every call the handlers make to the outside is an event of a trace, in the order of
  the calls: the reading of the clock, the HTTP request, the log records (level and
  arguments; the formatting of the line is not modelled), the acknowledgement of a
  callback query and the two kinds of reply. A reply carries its keyword arguments:
  the parse mode, the inline keyboard (rows of buttons) and \<^verbatim>\<open>protect_content\<close>
  (False when the call does not pass it).
\<close>

datatype button = InlineKeyboardButton pyval pyval

datatype parse_mode = HTML

datatype event =
    TimeTime
  | RequestsGet string nat
  | LogWarning int string
  | LogInfo pyval
  | LogException exn
  | QueryAnswer
  | ReplyText pyval "parse_mode option" "button list list option" bool
  | ReplyPhoto pyval pyval "parse_mode option" "button list list option" bool

text \<open>
  The target of a reply is what the handler was given as \<^verbatim>\<open>reply_target\<close>: a message of
  the chat, or None. \<^verbatim>\<open>update.message\<close> is None when the update is an edited message
  (the command handler of \<^verbatim>\<open>/ads\<close> is registered without a filter and takes those
  too), and the message of a callback query can be None as well. On a message,
  \<^verbatim>\<open>reply_target.reply_text(...)\<close> and \<^verbatim>\<open>reply_target.reply_photo(...)\<close> are the
  event, and sending is taken to succeed. On None the attribute lookup raises
  AttributeError and nothing is sent.
\<close>

datatype chat_message = Message int

definition reply :: "chat_message option \<Rightarrow> event \<Rightarrow> event list \<times> exn option" where
  "reply reply_target ev =
     (case reply_target of
        None \<Rightarrow> ([], Some AttributeError)
      | Some msg \<Rightarrow> ([ev], None))"

section \<open>The ad fetcher\<close>

text \<open>
  \<^verbatim>\<open>
  AD_API = "https://api.adsgram.ai/advbot"

  def _fetch_ad(tgid: int) -> Optional[dict]:
      url = f"{AD_API}?tgid={tgid}&blockid={BLOCK_ID}"
      try:
          resp = requests.get(url, timeout=10)
          if resp.status_code != 200:
              log.warning("AdsGram non-200: %s %s", resp.status_code, resp.text[:200])
              return None
          data = resp.json()
          if not isinstance(data, dict) or not data.get("button_name"):
              log.info("No ad / malformed ad: %s", str(data)[:200])
              return None
          return data
      except Exception as e:
          log.exception("Failed to fetch ad: %s", e)
          return None
  \<close>
  \<open>fetch_ad_try\<close> is the body of the \<^verbatim>\<open>try\<close>: it returns the events so far and
  either the exception that left the block or the value returned. \<open>fetch_ad\<close> adds the
  handler. Its result keeps the type of the body's, so that an exception leaving
  \<^verbatim>\<open>_fetch_ad\<close> would be an \<open>Inl\<close>. The module's \<^verbatim>\<open>BLOCK_ID\<close> is a parameter.
\<close>

definition AD_API :: string where
  "AD_API = ''https://api.adsgram.ai/advbot''"

definition ad_url :: "string \<Rightarrow> int \<Rightarrow> string" where
  "ad_url BLOCK_ID tgid = AD_API @ ''?tgid='' @ str_int tgid @ ''&blockid='' @ BLOCK_ID"

definition fetch_ad_try :: "http \<Rightarrow> string \<Rightarrow> int \<Rightarrow> event list \<times> (exn + pydict option)" where
  "fetch_ad_try world BLOCK_ID tgid =
     (let url = ad_url BLOCK_ID tgid
      in case world url 10 of
           Raises e \<Rightarrow> ([RequestsGet url 10], Inl e)
         | Responds resp \<Rightarrow>
             if status_code resp \<noteq> 200
             then ([RequestsGet url 10,
                    LogWarning (status_code resp) (take 200 (resp_text resp))], Inr None)
             else (case resp_json resp of
                     Inl e \<Rightarrow> ([RequestsGet url 10], Inl e)
                   | Inr data \<Rightarrow>
                       (case as_dict data of
                          None \<Rightarrow> ([RequestsGet url 10, LogInfo data], Inr None)
                        | Some d \<Rightarrow>
                            if \<not> truthy (dict_get d ''button_name'')
                            then ([RequestsGet url 10, LogInfo data], Inr None)
                            else ([RequestsGet url 10], Inr (Some d)))))"

definition fetch_ad :: "http \<Rightarrow> string \<Rightarrow> int \<Rightarrow> event list \<times> (exn + pydict option)" where
  "fetch_ad world BLOCK_ID tgid =
     (case fetch_ad_try world BLOCK_ID tgid of
        (evs, Inl e) \<Rightarrow> (evs @ [LogException e], Inr None)
      | (evs, Inr r) \<Rightarrow> (evs, Inr r))"

section \<open>The handlers\<close>

text \<open>
  The two notices of \<^verbatim>\<open>show_ads_common\<close>. Each starts with an emoji, written here
  as the bytes of its UTF-8 encoding (U+23F3 and U+1F615).
\<close>

definition WAIT_NOTICE :: string where
  "WAIT_NOTICE = [CHR 0xE2, CHR 0x8F, CHR 0xB3]
     @ '' Please wait a few seconds before requesting another ad.''"

definition NO_AD_NOTICE :: string where
  "NO_AD_NOTICE = [CHR 0xF0, CHR 0x9F, CHR 0x98, CHR 0x95]
     @ '' No ad available right now. Please try again shortly.''"

text \<open>
  Lines 113 to 119 of \<^verbatim>\<open>show_ads_common\<close>, the inline keyboard:
  \<^verbatim>\<open>
  buttons = [[InlineKeyboardButton(ad["button_name"], url=ad.get("click_url", "https://t.me"))]]
  if ad.get("button_reward_name") and ad.get("reward_url"):
      buttons.append([InlineKeyboardButton(ad["button_reward_name"], url=ad["reward_url"])])
  markup = InlineKeyboardMarkup(buttons)
  \<close>
\<close>

definition FALLBACK_URL :: pyval where
  "FALLBACK_URL = PStr ''https://t.me''"

definition ad_buttons :: "pydict \<Rightarrow> exn + button list list" where
  "ad_buttons ad =
     (case getitem ad ''button_name'' of
        Inl e \<Rightarrow> Inl e
      | Inr name \<Rightarrow>
          (let buttons =
                 [[InlineKeyboardButton name
                     (dict_get_default (map_of ad) ''click_url'' FALLBACK_URL)]]
           in if truthy (dict_get ad ''button_reward_name'') \<and> truthy (dict_get ad ''reward_url'')
              then (case getitem ad ''button_reward_name'' of
                      Inl e \<Rightarrow> Inl e
                    | Inr reward_name \<Rightarrow>
                        (case getitem ad ''reward_url'' of
                           Inl e \<Rightarrow> Inl e
                         | Inr reward_url \<Rightarrow>
                             Inr (buttons @ [[InlineKeyboardButton reward_name reward_url]])))
              else Inr buttons))"

text \<open>
  Lines 121 to 139, the reply:
  \<^verbatim>\<open>
  text_html = ad.get("text_html") or "Sponsored"
  image_url = ad.get("image_url")
  if image_url:
      await reply_target.reply_photo(photo=image_url, caption=text_html,
          parse_mode=ParseMode.HTML, reply_markup=markup, protect_content=True)
  else:
      await reply_target.reply_text(text_html,
          parse_mode=ParseMode.HTML, reply_markup=markup, protect_content=True)
  \<close>
\<close>

definition ad_reply :: "pydict \<Rightarrow> button list list \<Rightarrow> event" where
  "ad_reply ad markup =
     (let text_html = py_or (dict_get ad ''text_html'') (PStr ''Sponsored'');
          image_url = dict_get ad ''image_url''
      in if truthy image_url
         then ReplyPhoto image_url text_html (Some HTML) (Some markup) True
         else ReplyText text_html (Some HTML) (Some markup) True)"

definition render :: "pydict \<Rightarrow> exn + event" where
  "render ad =
     (case ad_buttons ad of
        Inl e \<Rightarrow> Inl e
      | Inr markup \<Rightarrow> Inr (ad_reply ad markup))"

text \<open>
  \<^verbatim>\<open>
  async def show_ads_common(update, context, *, reply_target):
      user_id = update.effective_user.id
      if not _cooldown_ok(user_id):
          await reply_target.reply_text("... Please wait a few seconds before requesting another ad.")
          return
      ad = _fetch_ad(user_id)
      if not ad:
          await reply_target.reply_text("... No ad available right now. Please try again shortly.")
          return
      ... (the keyboard and the reply, above)
  \<close>
  Of the update the handler reads the user identifier; \<open>reply_target\<close> is the keyword
  argument; \<open>now\<close> is what the clock shows when \<^verbatim>\<open>_cooldown_ok\<close> reads it. The result is the cooldown map after the handler, the
  trace of its calls to the outside, and the exception that left the handler, if any.
\<close>

type_synonym handler_result = "cooldown_map \<times> event list \<times> exn option"

definition show_ads_common ::
  "http \<Rightarrow> string \<Rightarrow> real \<Rightarrow> cooldown_map \<Rightarrow> int \<Rightarrow> chat_message option \<Rightarrow> handler_result" where
  "show_ads_common world BLOCK_ID now last_ad_at user_id reply_target =
     (case cooldown_ok last_ad_at user_id now of
        (ok, m) \<Rightarrow>
          if \<not> ok
          then (case reply reply_target (ReplyText (PStr WAIT_NOTICE) None None False) of
                  (sent, exc) \<Rightarrow> (m, TimeTime # sent, exc))
          else (case fetch_ad world BLOCK_ID user_id of
                  (evs, Inl e) \<Rightarrow> (m, TimeTime # evs, Some e)
                | (evs, Inr ad) \<Rightarrow>
                    (case ad of
                       None \<Rightarrow>
                         (case reply reply_target
                                 (ReplyText (PStr NO_AD_NOTICE) None None False) of
                            (sent, exc) \<Rightarrow> (m, TimeTime # evs @ sent, exc))
                     | Some d \<Rightarrow>
                         if \<not> truthy (PDict d)
                         then (case reply reply_target
                                      (ReplyText (PStr NO_AD_NOTICE) None None False) of
                                 (sent, exc) \<Rightarrow> (m, TimeTime # evs @ sent, exc))
                         else (case render d of
                                 Inl e \<Rightarrow> (m, TimeTime # evs, Some e)
                               | Inr msg \<Rightarrow>
                                   (case reply reply_target msg of
                                      (sent, exc) \<Rightarrow> (m, TimeTime # evs @ sent, exc))))))"

text \<open>
  \<^verbatim>\<open>
  async def ads_cmd(update, context):
      await show_ads_common(update, context, reply_target=update.message)

  async def button_cb(update, context):
      query = update.callback_query
      await query.answer()
      if query.data == "show_ads":
          await show_ads_common(update, context, reply_target=query.message)
  \<close>
  Of the update \<^verbatim>\<open>ads_cmd\<close> reads the user identifier and \<^verbatim>\<open>update.message\<close>. Of the
  callback query \<^verbatim>\<open>button_cb\<close> reads \<open>data\<close>, the callback data (None when the query has
  none), and the query's message.
\<close>

definition ads_cmd ::
  "http \<Rightarrow> string \<Rightarrow> real \<Rightarrow> cooldown_map \<Rightarrow> int \<Rightarrow> chat_message option \<Rightarrow> handler_result" where
  "ads_cmd world BLOCK_ID now last_ad_at user_id update_message =
     show_ads_common world BLOCK_ID now last_ad_at user_id update_message"

definition button_cb ::
  "http \<Rightarrow> string \<Rightarrow> real \<Rightarrow> cooldown_map \<Rightarrow> int \<Rightarrow> string option \<Rightarrow> chat_message option
     \<Rightarrow> handler_result" where
  "button_cb world BLOCK_ID now last_ad_at user_id data query_message =
     (if data = Some ''show_ads''
      then (case show_ads_common world BLOCK_ID now last_ad_at user_id query_message of
              (m, evs, exc) \<Rightarrow> (m, QueryAnswer # evs, exc))
      else (last_ad_at, [QueryAnswer], None))"

section \<open>Startup\<close>

text \<open>
  \<^verbatim>\<open>
  BOT_TOKEN = os.getenv(...)
  BLOCK_ID = os.getenv(...)
  if not BOT_TOKEN:
      raise RuntimeError("Missing BOT_TOKEN env var")
  if not BLOCK_ID or not BLOCK_ID.isdigit():
      raise RuntimeError("BLOCK_ID must be numeric and set as env var")

  def main():
      app = Application.builder().token(BOT_TOKEN).build()
      app.add_handler(CommandHandler("start", start))
      app.add_handler(CommandHandler("help", help_cmd))
      app.add_handler(CommandHandler("ads", ads_cmd))
      app.add_handler(CallbackQueryHandler(button_cb))
      log.info("Bot starting...")
      app.run_polling(allowed_updates=Update.ALL_TYPES)
  \<close>
  The inputs are the two values \<^verbatim>\<open>os.getenv\<close> returned (None for a variable that is
  not set), that is, the module's \<^verbatim>\<open>BOT_TOKEN\<close> and \<^verbatim>\<open>BLOCK_ID\<close>; \<^verbatim>\<open>not x\<close> holds of
  None and of the empty string. A value is a list of characters of any type \<open>'c\<close>:
  Python's strings are lists of Unicode code points. \<^verbatim>\<open>str.isdigit\<close> holds of a
  string that is not empty and all of whose characters are digits in the sense of
  Unicode (the digits 0 to 9 and others, such as U+00B2 and U+0661). That test of one
  character is a table of Python's and is the parameter \<open>unicode_digit\<close>.
  Running the script executes the module's top level, then \<^verbatim>\<open>main()\<close>; the result
  is the error raised, or the calls of \<^verbatim>\<open>main\<close> in their order, the last of which
  (\<^verbatim>\<open>run_polling\<close>) is the event loop.
\<close>

datatype startup_error = RuntimeError string

datatype 'c startup_event =
    ApplicationBuild "'c list"
  | AddCommandHandler string
  | AddCallbackQueryHandler
  | LogBotStarting
  | RunPolling

definition isdigit :: "('c \<Rightarrow> bool) \<Rightarrow> 'c list \<Rightarrow> bool" where
  "isdigit unicode_digit s = (s \<noteq> [] \<and> list_all unicode_digit s)"

definition validate_config ::
  "('c \<Rightarrow> bool) \<Rightarrow> 'c list option \<Rightarrow> 'c list option \<Rightarrow> startup_error + 'c list \<times> 'c list" where
  "validate_config unicode_digit BOT_TOKEN BLOCK_ID =
     (case BOT_TOKEN of
        None \<Rightarrow> Inl (RuntimeError ''Missing BOT_TOKEN env var'')
      | Some t \<Rightarrow>
          if t = []
          then Inl (RuntimeError ''Missing BOT_TOKEN env var'')
          else (case BLOCK_ID of
                  None \<Rightarrow> Inl (RuntimeError ''BLOCK_ID must be numeric and set as env var'')
                | Some b \<Rightarrow>
                    if b = [] \<or> \<not> isdigit unicode_digit b
                    then Inl (RuntimeError ''BLOCK_ID must be numeric and set as env var'')
                    else Inr (t, b)))"

definition main :: "'c list \<Rightarrow> 'c startup_event list" where
  "main BOT_TOKEN =
     [ApplicationBuild BOT_TOKEN,
      AddCommandHandler ''start'',
      AddCommandHandler ''help'',
      AddCommandHandler ''ads'',
      AddCallbackQueryHandler,
      LogBotStarting,
      RunPolling]"

definition startup ::
  "('c \<Rightarrow> bool) \<Rightarrow> 'c list option \<Rightarrow> 'c list option \<Rightarrow> startup_error + 'c startup_event list" where
  "startup unicode_digit BOT_TOKEN BLOCK_ID =
     (case validate_config unicode_digit BOT_TOKEN BLOCK_ID of
        Inl e \<Rightarrow> Inl e
      | Inr (t, b) \<Rightarrow> Inr (main t))"

text \<open>
  Lines 24 and 25 read the two values from the environment:
  \<^verbatim>\<open>BOT_TOKEN = os.getenv(...)\<close> and \<^verbatim>\<open>BLOCK_ID = os.getenv("int-14249")\<close>. The argument
  on line 24 is a string literal that has the form of a bot token; it is the parameter
  \<open>token_name\<close> here, and no statement below depends on which string it is. The
  environment is a map from variable names to values; the names are ASCII. The comment above the two lines
  documents the configuration:
  \<^verbatim>\<open>
  # Set these in Render's dashboard (or locally in your shell):
  #   export BOT_TOKEN="123456:ABC..."
  #   export BLOCK_ID="123456"
  \<close>
  \<open>documented_environ\<close> is an environment configured that way.
\<close>

definition startup_from_environ ::
  "('c \<Rightarrow> bool) \<Rightarrow> string \<Rightarrow> (string \<rightharpoonup> 'c list) \<Rightarrow> startup_error + 'c startup_event list" where
  "startup_from_environ unicode_digit token_name environ =
     startup unicode_digit (environ token_name) (environ ''int-14249'')"

definition documented_environ :: "string \<rightharpoonup> string" where
  "documented_environ = [''BOT_TOKEN'' \<mapsto> ''123456:ABC'', ''BLOCK_ID'' \<mapsto> ''123456'']"

section \<open>Reading a trace\<close>

text \<open>
  What the statements below ask of an event: whether it is an HTTP request, whether it
  is a reply, and the arguments of a reply (the body is the text of \<^verbatim>\<open>reply_text\<close>
  and the caption of \<^verbatim>\<open>reply_photo\<close>).
\<close>

fun is_request :: "event \<Rightarrow> bool" where
  "is_request (RequestsGet url timeout) = True"
| "is_request _ = False"

fun is_reply :: "event \<Rightarrow> bool" where
  "is_reply (ReplyText body pm markup protect) = True"
| "is_reply (ReplyPhoto photo body pm markup protect) = True"
| "is_reply _ = False"

fun reply_body :: "event \<Rightarrow> pyval option" where
  "reply_body (ReplyText body pm markup protect) = Some body"
| "reply_body (ReplyPhoto photo body pm markup protect) = Some body"
| "reply_body _ = None"

fun reply_photo :: "event \<Rightarrow> pyval option" where
  "reply_photo (ReplyPhoto photo body pm markup protect) = Some photo"
| "reply_photo _ = None"

fun reply_parse_mode :: "event \<Rightarrow> parse_mode option" where
  "reply_parse_mode (ReplyText body pm markup protect) = pm"
| "reply_parse_mode (ReplyPhoto photo body pm markup protect) = pm"
| "reply_parse_mode _ = None"

fun reply_markup :: "event \<Rightarrow> button list list option" where
  "reply_markup (ReplyText body pm markup protect) = markup"
| "reply_markup (ReplyPhoto photo body pm markup protect) = markup"
| "reply_markup _ = None"

fun protect_content :: "event \<Rightarrow> bool" where
  "protect_content (ReplyText body pm markup protect) = protect"
| "protect_content (ReplyPhoto photo body pm markup protect) = protect"
| "protect_content _ = False"

text \<open>The events of a handler's result.\<close>

definition events :: "handler_result \<Rightarrow> event list" where
  "events r = fst (snd r)"

section \<open>Example inputs\<close>

text \<open>
  Three payloads of the ad network: \<^verbatim>\<open>{"button_name": "View"}\<close>,
  \<^verbatim>\<open>{"button_name": "View", "button_reward_name": "Claim", "reward_url": "https://x"}\<close>,
  one with a click URL, a caption and an image, and two whose click URL is there but
  empty: \<^verbatim>\<open>{"button_name": "View", "click_url": ""}\<close> and
  \<^verbatim>\<open>{"button_name": "View", "click_url": null}\<close>. And three worlds: one that answers every request with a given status and JSON body,
  one where the request times out, one that answers 200 with a body that is not JSON.
\<close>

definition view_ad :: pydict where
  "view_ad = [(''button_name'', PStr ''View'')]"

definition reward_ad :: pydict where
  "reward_ad =
     [(''button_name'', PStr ''View''),
      (''button_reward_name'', PStr ''Claim''),
      (''reward_url'', PStr ''https://x'')]"

definition image_ad :: pydict where
  "image_ad =
     [(''button_name'', PStr ''View''),
      (''click_url'', PStr ''https://ad.example/go''),
      (''text_html'', PStr ''<b>New</b> offer''),
      (''image_url'', PStr ''https://ad.example/banner.png'')]"

definition empty_click_ad :: pydict where
  "empty_click_ad = [(''button_name'', PStr ''View''), (''click_url'', PStr [])]"

definition null_click_ad :: pydict where
  "null_click_ad = [(''button_name'', PStr ''View''), (''click_url'', PNone)]"

definition world_status :: "int \<Rightarrow> pyval \<Rightarrow> http" where
  "world_status code data url timeout =
     Responds \<lparr>status_code = code, resp_text = [], resp_json = Inr data\<rparr>"

definition world_timeout :: http where
  "world_timeout url timeout = Raises Timeout"

definition world_not_json :: http where
  "world_not_json url timeout =
     Responds \<lparr>status_code = 200, resp_text = ''<html>'', resp_json = Inl JSONDecodeError\<rparr>"

section \<open>Lemmas about the fetcher, the keyboard and the cooldown\<close>

lemma as_dict_Some: "(as_dict v = Some d) = (v = PDict d)"
  by (cases v) auto

lemma fetch_ad_Raises:
  "world (ad_url B tgid) 10 = Raises e \<Longrightarrow>
   fetch_ad world B tgid = ([RequestsGet (ad_url B tgid) 10, LogException e], Inr None)"
  by (simp add: fetch_ad_def fetch_ad_try_def)

lemma fetch_ad_Responds:
  "world (ad_url B tgid) 10 = Responds resp \<Longrightarrow>
   fetch_ad world B tgid =
     (if status_code resp \<noteq> 200
      then ([RequestsGet (ad_url B tgid) 10,
             LogWarning (status_code resp) (take 200 (resp_text resp))], Inr None)
      else case resp_json resp of
             Inl e \<Rightarrow> ([RequestsGet (ad_url B tgid) 10, LogException e], Inr None)
           | Inr data \<Rightarrow>
               (case as_dict data of
                  None \<Rightarrow> ([RequestsGet (ad_url B tgid) 10, LogInfo data], Inr None)
                | Some d \<Rightarrow>
                    if truthy (dict_get d ''button_name'')
                    then ([RequestsGet (ad_url B tgid) 10], Inr (Some d))
                    else ([RequestsGet (ad_url B tgid) 10, LogInfo data], Inr None)))"
  by (simp add: fetch_ad_def fetch_ad_try_def split: sum.splits option.splits)

lemma fetch_ad_Some_iff:
  "(snd (fetch_ad world B tgid) = Inr (Some d)) =
   (\<exists>resp. world (ad_url B tgid) 10 = Responds resp \<and> status_code resp = 200 \<and>
      resp_json resp = Inr (PDict d) \<and> truthy (dict_get d ''button_name''))"
proof (cases "world (ad_url B tgid) 10")
  case (Raises e)
  then show ?thesis by (simp add: fetch_ad_Raises)
next
  case (Responds resp)
  then show ?thesis
    by (auto simp: fetch_ad_Responds as_dict_Some split: sum.splits option.splits)
qed

lemma fetch_ad_returns:
  "snd (fetch_ad world B tgid) = Inr None \<or> (\<exists>d. snd (fetch_ad world B tgid) = Inr (Some d))"
proof (cases "world (ad_url B tgid) 10")
  case (Raises e)
  then show ?thesis by (simp add: fetch_ad_Raises)
next
  case (Responds resp)
  then show ?thesis
    by (auto simp: fetch_ad_Responds split: sum.splits option.splits)
qed

lemma fetch_ad_requests:
  "filter is_request (fst (fetch_ad world B tgid)) = [RequestsGet (ad_url B tgid) 10]"
proof (cases "world (ad_url B tgid) 10")
  case (Raises e)
  then show ?thesis by (simp add: fetch_ad_Raises)
next
  case (Responds resp)
  then show ?thesis
    by (auto simp: fetch_ad_Responds split: sum.splits option.splits)
qed

lemma fetch_ad_no_reply: "filter is_reply (fst (fetch_ad world B tgid)) = []"
proof (cases "world (ad_url B tgid) 10")
  case (Raises e)
  then show ?thesis by (simp add: fetch_ad_Raises)
next
  case (Responds resp)
  then show ?thesis
    by (auto simp: fetch_ad_Responds split: sum.splits option.splits)
qed

lemma truthy_get_map_of:
  "truthy (dict_get d k) \<Longrightarrow> map_of d k = Some (dict_get d k)"
  by (cases "map_of d k") (simp_all add: dict_get_def dict_get_default_def)

lemma truthy_get_getitem:
  "truthy (dict_get d k) \<Longrightarrow> getitem d k = Inr (dict_get d k)"
  by (simp add: getitem_def truthy_get_map_of)

lemma truthy_get_nonempty: "truthy (dict_get d k) \<Longrightarrow> truthy (PDict d)"
  by (cases d) (simp_all add: dict_get_def dict_get_default_def)

lemma ad_buttons_valid:
  assumes "truthy (dict_get d ''button_name'')"
  shows "ad_buttons d =
    Inr ([[InlineKeyboardButton (dict_get d ''button_name'')
             (case map_of d ''click_url'' of None \<Rightarrow> FALLBACK_URL | Some url \<Rightarrow> url)]]
         @ (if truthy (dict_get d ''button_reward_name'') \<and> truthy (dict_get d ''reward_url'')
            then [[InlineKeyboardButton (dict_get d ''button_reward_name'')
                     (dict_get d ''reward_url'')]]
            else []))"
  using assms
  by (simp add: ad_buttons_def Let_def truthy_get_getitem dict_get_default_def)

lemma cooldown_ok_fst:
  "fst (cooldown_ok m u now) = (case m u of None \<Rightarrow> 8 \<le> now | Some t \<Rightarrow> 8 \<le> now - t)"
  by (simp add: cooldown_ok_def COOLDOWN_SECONDS_def dict_get_default_def split: option.splits)

lemma cooldown_ok_snd:
  "snd (cooldown_ok m u now) = (if fst (cooldown_ok m u now) then m(u \<mapsto> now) else m)"
  by (simp add: cooldown_ok_def)

lemma cooldown_calls_denied:
  "m u = Some t0 \<Longrightarrow> \<forall>t\<in>set ts. t < t0 + 8 \<Longrightarrow>
   cooldown_calls m u ts = (replicate (length ts) False, m)"
proof (induction ts)
  case Nil
  then show ?case by simp
next
  case (Cons t ts)
  then have "cooldown_ok m u t = (False, m)"
    by (simp add: cooldown_ok_def COOLDOWN_SECONDS_def dict_get_default_def)
  with Cons show ?case by simp
qed

lemma cooldown_ok_denied_eq: "\<not> fst (cooldown_ok m u now) \<Longrightarrow> cooldown_ok m u now = (False, m)"
  by (simp add: prod_eq_iff cooldown_ok_snd)

lemma cooldown_ok_allowed_eq:
  "fst (cooldown_ok m u now) \<Longrightarrow> cooldown_ok m u now = (True, m(u \<mapsto> now))"
  by (simp add: prod_eq_iff cooldown_ok_snd)

section \<open>The cooldown check\<close>

text \<open>
  C2. The call time is what the clock of the running bot shows: seconds since the Unix
  epoch, at least 8. For every user identifier and every such call time,
  \<^verbatim>\<open>_cooldown_ok\<close> returns true if and only if the user has no record or at least 8
  seconds have passed since the user's recorded timestamp. When it returns true the
  same call records the call time for the user, and otherwise the map is the one given.
  Consequently a request at least 8 seconds after an allowed one is allowed too: two
  requests at least 8 seconds apart are both allowed for every user who has no record,
  or whose record is at least 8 seconds old, at the first of them.
\<close>

theorem cooldown_ok_iff:
  "(8 \<le> now \<longrightarrow>
      fst (cooldown_ok m u now) = (m u = None \<or> (\<exists>t. m u = Some t \<and> 8 \<le> now - t)))
   \<and> snd (cooldown_ok m u now) = (if fst (cooldown_ok m u now) then m(u \<mapsto> now) else m)
   \<and> (fst (cooldown_ok m u t1) \<and> 8 \<le> t2 - t1 \<longrightarrow>
        cooldown_calls m u [t1, t2] = ([True, True], m(u \<mapsto> t2)))
   \<and> (8 \<le> t1 \<and> 8 \<le> t2 - t1 \<and> (m u = None \<or> (\<exists>t. m u = Some t \<and> 8 \<le> t1 - t)) \<longrightarrow>
        cooldown_calls m u [t1, t2] = ([True, True], m(u \<mapsto> t2)))"
proof -
  have iff: "fst (cooldown_ok m u now) = (m u = None \<or> (\<exists>t. m u = Some t \<and> 8 \<le> now - t))"
    if "8 \<le> now" for now
    using that by (cases "m u") (simp_all add: cooldown_ok_fst)
  have two: "cooldown_calls m u [t1, t2] = ([True, True], m(u \<mapsto> t2))"
    if "fst (cooldown_ok m u t1)" and "8 \<le> t2 - t1"
  proof -
    have "fst (cooldown_ok (m(u \<mapsto> t1)) u t2)"
      using that(2) by (simp add: cooldown_ok_fst)
    then have "cooldown_ok (m(u \<mapsto> t1)) u t2 = (True, m(u \<mapsto> t2))"
      by (simp add: cooldown_ok_allowed_eq)
    with that(1) show ?thesis
      by (simp add: cooldown_ok_allowed_eq)
  qed
  have rested: "cooldown_calls m u [t1, t2] = ([True, True], m(u \<mapsto> t2))"
    if "8 \<le> t1" and "8 \<le> t2 - t1"
      and "m u = None \<or> (\<exists>t. m u = Some t \<and> 8 \<le> t1 - t)"
  proof -
    from that(1,3) have ok: "fst (cooldown_ok m u t1)" by (simp add: iff)
    from ok that(2) show ?thesis by (rule two)
  qed
  have rec: "snd (cooldown_ok m u now) = (if fst (cooldown_ok m u now) then m(u \<mapsto> now) else m)"
    by (rule cooldown_ok_snd)
  from iff [of now] two rested rec show ?thesis by blast
qed

text \<open>
  At time 100 a user with no record is allowed, and the time is recorded. With the
  record at 100 the user is denied at 104. Requests at 100 and 108 are both allowed.
\<close>

theorem cooldown_ok_iff_witness:
  "(8::real) \<le> 100
   \<and> last_ad_at_init (7::int) = None
   \<and> cooldown_ok last_ad_at_init 7 100 = (True, last_ad_at_init(7 \<mapsto> 100))
   \<and> (8::real) \<le> 104
   \<and> \<not> (8::real) \<le> 104 - 100
   \<and> cooldown_ok (last_ad_at_init(7 \<mapsto> 100)) 7 104 = (False, last_ad_at_init(7 \<mapsto> 100))
   \<and> (8::real) \<le> 108 - 100
   \<and> cooldown_calls last_ad_at_init 7 [100, 108] = ([True, True], last_ad_at_init(7 \<mapsto> 108))"
proof -
  have none: "last_ad_at_init (7::int) = None" by (simp add: last_ad_at_init_def)
  have h100: "(8::real) \<le> 100" and h104: "(8::real) \<le> 104"
    and soon: "\<not> (8::real) \<le> 104 - 100" and late: "(8::real) \<le> 108 - 100"
    by simp_all
  note first = cooldown_ok_iff [of 100 last_ad_at_init 7]
  from first h100 none have ok: "fst (cooldown_ok last_ad_at_init 7 100)" by blast
  with first have a: "cooldown_ok last_ad_at_init 7 100 = (True, last_ad_at_init(7 \<mapsto> 100))"
    by (simp add: prod_eq_iff)
  note second = cooldown_ok_iff [of 104 "last_ad_at_init(7 \<mapsto> 100)" 7]
  from second h104 soon have no: "\<not> fst (cooldown_ok (last_ad_at_init(7 \<mapsto> 100)) 7 104)"
    by simp
  with second
  have b: "cooldown_ok (last_ad_at_init(7 \<mapsto> 100)) 7 104 = (False, last_ad_at_init(7 \<mapsto> 100))"
    by (simp add: prod_eq_iff)
  from cooldown_ok_iff [of _ last_ad_at_init 7 100 108] h100 late none
  have c: "cooldown_calls last_ad_at_init 7 [100, 108]
      = ([True, True], last_ad_at_init(7 \<mapsto> 108))"
    by blast
  from h100 none a h104 soon b late c show ?thesis by (intro conjI)
qed

text \<open>
  C9. When \<^verbatim>\<open>_cooldown_ok\<close> returns false the map it leaves is the map it was given.
  So after an allowed request at time \<open>t0\<close>, any number of requests of the same user
  before \<open>t0 + 8\<close> are all denied and leave the timestamp at \<open>t0\<close>, and a request at
  \<open>t0 + 8\<close> or later is allowed: denied requests do not extend the wait.
\<close>

theorem cooldown_denied_frame:
  "(\<not> fst (cooldown_ok m u now) \<longrightarrow> snd (cooldown_ok m u now) = m)
   \<and> (fst (cooldown_ok m u t0) \<and> (\<forall>t\<in>set ts. t < t0 + 8) \<and> t0 + 8 \<le> t' \<longrightarrow>
        cooldown_calls (snd (cooldown_ok m u t0)) u ts
          = (replicate (length ts) False, m(u \<mapsto> t0))
        \<and> fst (cooldown_ok (snd (cooldown_calls (snd (cooldown_ok m u t0)) u ts)) u t'))"
proof -
  have "cooldown_calls (snd (cooldown_ok m u t0)) u ts
          = (replicate (length ts) False, m(u \<mapsto> t0))
        \<and> fst (cooldown_ok (snd (cooldown_calls (snd (cooldown_ok m u t0)) u ts)) u t')"
    if ok: "fst (cooldown_ok m u t0)" and early: "\<forall>t\<in>set ts. t < t0 + 8" and late: "t0 + 8 \<le> t'"
  proof -
    have m1: "snd (cooldown_ok m u t0) = m(u \<mapsto> t0)"
      using ok by (simp add: cooldown_ok_snd)
    have calls: "cooldown_calls (m(u \<mapsto> t0)) u ts = (replicate (length ts) False, m(u \<mapsto> t0))"
      using early by (intro cooldown_calls_denied) simp_all
    have "fst (cooldown_ok (m(u \<mapsto> t0)) u t')"
      using late by (simp add: cooldown_ok_fst)
    with m1 calls show ?thesis by simp
  qed
  moreover have "snd (cooldown_ok m u now) = m" if "\<not> fst (cooldown_ok m u now)"
    using that by (simp add: cooldown_ok_snd)
  ultimately show ?thesis by blast
qed

text \<open>
  A first request at time 100 is allowed; requests at 101, 104 and 107 are denied and
  change nothing; the request at 108 is allowed.
\<close>

theorem cooldown_denied_frame_witness:
  "fst (cooldown_ok last_ad_at_init 7 100)
   \<and> \<not> fst (cooldown_ok (last_ad_at_init(7 \<mapsto> 100)) 7 104)
   \<and> snd (cooldown_ok (last_ad_at_init(7 \<mapsto> 100)) 7 104) = last_ad_at_init(7 \<mapsto> 100)
   \<and> cooldown_calls (snd (cooldown_ok last_ad_at_init 7 100)) 7 [101, 104, 107]
        = ([False, False, False], last_ad_at_init(7 \<mapsto> 100))
   \<and> fst (cooldown_ok (snd (cooldown_calls (snd (cooldown_ok last_ad_at_init 7 100)) 7
                              [101, 104, 107])) 7 108)"
proof -
  have ok: "fst (cooldown_ok last_ad_at_init 7 100)"
    by (simp add: cooldown_ok_fst last_ad_at_init_def)
  have denied: "\<not> fst (cooldown_ok (last_ad_at_init(7 \<mapsto> 100)) 7 104)"
    by (simp add: cooldown_ok_fst)
  have early: "\<forall>t\<in>set [101, 104, 107::real]. t < 100 + 8" by simp
  have late: "(100::real) + 8 \<le> 108" by simp
  have len: "replicate (length [101, 104, 107::real]) False = [False, False, False]"
    by simp
  from denied cooldown_denied_frame [of "last_ad_at_init(7 \<mapsto> 100)" 7 104]
  have unchanged:
    "snd (cooldown_ok (last_ad_at_init(7 \<mapsto> 100)) 7 104) = last_ad_at_init(7 \<mapsto> 100)"
    by blast
  from ok early late cooldown_denied_frame [of last_ad_at_init 7 _ 100 "[101, 104, 107]" 108]
  have "cooldown_calls (snd (cooldown_ok last_ad_at_init 7 100)) 7 [101, 104, 107]
          = (replicate (length [101, 104, 107::real]) False, last_ad_at_init(7 \<mapsto> 100))
        \<and> fst (cooldown_ok (snd (cooldown_calls (snd (cooldown_ok last_ad_at_init 7 100)) 7
                                   [101, 104, 107])) 7 108)"
    by blast
  with ok denied unchanged show ?thesis
    unfolding len by blast
qed

section \<open>The fetcher\<close>

lemma ad_url_example: "ad_url ''14249'' 7 = ''https://api.adsgram.ai/advbot?tgid=7&blockid=14249''"
  by (simp add: ad_url_def AD_API_def str_int_def str_nat.simps)

text \<open>
  C1, as amended. \<^verbatim>\<open>_fetch_ad\<close> returns the parsed payload if and only if the HTTP
  response has status 200 and its body parses to a dict whose \<^verbatim>\<open>button_name\<close> is
  present and not empty (a value that passes Python's truth test). In every other
  case, a status other than 200 (the other 2xx codes included), a body that does not
  parse, a body that is not a dict, a missing or empty \<^verbatim>\<open>button_name\<close>, a request
  that raises, it returns None.
\<close>

theorem fetch_ad_payload_iff:
  "(snd (fetch_ad world B tgid) = Inr (Some d)) =
     (\<exists>resp. world (ad_url B tgid) 10 = Responds resp \<and> status_code resp = 200 \<and>
        resp_json resp = Inr (PDict d) \<and> truthy (dict_get d ''button_name''))
   \<and> (snd (fetch_ad world B tgid) = Inr None) =
     (\<not> (\<exists>resp d. world (ad_url B tgid) 10 = Responds resp \<and> status_code resp = 200 \<and>
        resp_json resp = Inr (PDict d) \<and> truthy (dict_get d ''button_name'')))"
proof -
  have "(snd (fetch_ad world B tgid) = Inr None) = (\<not> (\<exists>d. snd (fetch_ad world B tgid) = Inr (Some d)))"
    using fetch_ad_returns [of world B tgid] by auto
  then show ?thesis
    by (simp only: fetch_ad_Some_iff) blast
qed

text \<open>
  Status 200 with the body \<^verbatim>\<open>{"button_name": "View"}\<close> gives the payload; status
  404, and status 200 with the body \<^verbatim>\<open>{}\<close>, give None.
\<close>

theorem fetch_ad_payload_iff_witness:
  "snd (fetch_ad (world_status 200 (PDict view_ad)) ''14249'' 7) = Inr (Some view_ad)
   \<and> snd (fetch_ad (world_status 404 (PDict view_ad)) ''14249'' 7) = Inr None
   \<and> snd (fetch_ad (world_status 200 (PDict [])) ''14249'' 7) = Inr None"
proof -
  have "snd (fetch_ad (world_status 200 (PDict view_ad)) ''14249'' 7) = Inr (Some view_ad)"
    using fetch_ad_payload_iff [of "world_status 200 (PDict view_ad)" "''14249''" 7 view_ad]
    by (simp add: world_status_def view_ad_def dict_get_def dict_get_default_def)
  moreover have "snd (fetch_ad (world_status 404 (PDict view_ad)) ''14249'' 7) = Inr None"
    using fetch_ad_payload_iff [of "world_status 404 (PDict view_ad)" "''14249''" 7]
    by (simp add: world_status_def)
  moreover have "snd (fetch_ad (world_status 200 (PDict [])) ''14249'' 7) = Inr None"
    using fetch_ad_payload_iff [of "world_status 200 (PDict [])" "''14249''" 7]
    by (simp add: world_status_def dict_get_def dict_get_default_def)
  ultimately show ?thesis by blast
qed

text \<open>
  The claim with "2xx" fails at status 201: the body parses to a dict with a
  \<^verbatim>\<open>button_name\<close> that is not empty, and the fetcher returns None.
\<close>

theorem fetch_ad_201_counterexample:
  "world_status 201 (PDict view_ad) (ad_url ''14249'' 7) 10
     = Responds \<lparr>status_code = 201, resp_text = [], resp_json = Inr (PDict view_ad)\<rparr>
   \<and> (200::int) \<le> 201 \<and> (201::int) < 300
   \<and> truthy (dict_get view_ad ''button_name'')
   \<and> snd (fetch_ad (world_status 201 (PDict view_ad)) ''14249'' 7) = Inr None"
  by (simp add: fetch_ad_def fetch_ad_try_def world_status_def view_ad_def dict_get_def
      dict_get_default_def)

text \<open>
  C7. Whatever the HTTP call does, \<^verbatim>\<open>_fetch_ad\<close> returns a value: no exception leaves
  it. When \<^verbatim>\<open>requests.get\<close> raises (a transport failure, a timeout), or when
  \<^verbatim>\<open>resp.json()\<close> raises on a response with status 200 (a body that does not parse),
  the exception is logged and the result is None. Every invocation makes exactly one
  HTTP request, to the ad URL, with a timeout of 10 seconds.
\<close>

theorem fetch_ad_never_raises:
  "(\<exists>r. snd (fetch_ad world B tgid) = Inr r)
   \<and> (world (ad_url B tgid) 10 = Raises e \<longrightarrow>
        fetch_ad world B tgid = ([RequestsGet (ad_url B tgid) 10, LogException e], Inr None))
   \<and> (world (ad_url B tgid) 10 = Responds resp \<and> status_code resp = 200
        \<and> resp_json resp = Inl e \<longrightarrow>
        fetch_ad world B tgid = ([RequestsGet (ad_url B tgid) 10, LogException e], Inr None))
   \<and> filter is_request (fst (fetch_ad world B tgid)) = [RequestsGet (ad_url B tgid) 10]"
proof -
  have "\<exists>r. snd (fetch_ad world B tgid) = Inr r"
    using fetch_ad_returns [of world B tgid] by auto
  moreover have "fetch_ad world B tgid = ([RequestsGet (ad_url B tgid) 10, LogException e], Inr None)"
    if "world (ad_url B tgid) 10 = Responds resp" "status_code resp = 200" "resp_json resp = Inl e"
    using that by (simp add: fetch_ad_Responds)
  ultimately show ?thesis
    by (simp add: fetch_ad_Raises fetch_ad_requests)
qed

text \<open>
  A request that times out, and a response whose body is not JSON: one request each,
  the exception logged, None returned.
\<close>

theorem fetch_ad_never_raises_witness:
  "world_timeout (ad_url ''14249'' 7) 10 = Raises Timeout
   \<and> fetch_ad world_timeout ''14249'' 7
       = ([RequestsGet ''https://api.adsgram.ai/advbot?tgid=7&blockid=14249'' 10,
           LogException Timeout], Inr None)
   \<and> status_code \<lparr>status_code = 200, resp_text = ''<html>'', resp_json = Inl JSONDecodeError\<rparr> = 200
   \<and> fetch_ad world_not_json ''14249'' 7
       = ([RequestsGet ''https://api.adsgram.ai/advbot?tgid=7&blockid=14249'' 10,
           LogException JSONDecodeError], Inr None)"
proof -
  have "fetch_ad world_timeout ''14249'' 7
       = ([RequestsGet ''https://api.adsgram.ai/advbot?tgid=7&blockid=14249'' 10,
           LogException Timeout], Inr None)"
    using fetch_ad_never_raises [of world_timeout "''14249''" 7 Timeout]
    by (simp add: world_timeout_def ad_url_example)
  moreover have "fetch_ad world_not_json ''14249'' 7
       = ([RequestsGet ''https://api.adsgram.ai/advbot?tgid=7&blockid=14249'' 10,
           LogException JSONDecodeError], Inr None)"
    using fetch_ad_never_raises [of world_not_json "''14249''" 7 JSONDecodeError
        "\<lparr>status_code = 200, resp_text = ''<html>'', resp_json = Inl JSONDecodeError\<rparr>"]
    by (simp add: world_not_json_def ad_url_example)
  ultimately show ?thesis
    by (simp add: world_timeout_def)
qed

section \<open>The dispatcher\<close>

lemma reply_Some: "reply (Some msg) ev = ([ev], None)"
  by (simp add: reply_def)

lemma reply_None: "reply None ev = ([], Some AttributeError)"
  by (simp add: reply_def)

lemma reply_no_request: "\<not> is_request ev \<Longrightarrow> filter is_request (fst (reply rt ev)) = []"
  by (cases rt) (simp_all add: reply_def)

lemma reply_member: "x \<in> set (fst (reply rt ev)) \<Longrightarrow> x = ev"
  by (cases rt) (simp_all add: reply_def)

lemma is_reply_ad_reply: "is_reply (ad_reply d markup)"
  by (simp add: ad_reply_def Let_def)

lemma reply_markup_is_reply: "reply_markup ev \<noteq> None \<Longrightarrow> is_reply ev"
  by (cases ev) simp_all

lemma fetch_ad_events_no_reply: "ev \<in> set (fst (fetch_ad world B tgid)) \<Longrightarrow> \<not> is_reply ev"
  using fetch_ad_no_reply [of world B tgid] by (simp add: filter_empty_conv)

lemma fetch_ad_events_no_markup: "ev \<in> set (fst (fetch_ad world B tgid)) \<Longrightarrow> reply_markup ev = None"
  using fetch_ad_events_no_reply reply_markup_is_reply by blast

lemma render_valid:
  "truthy (dict_get d ''button_name'') \<Longrightarrow>
   \<exists>markup. ad_buttons d = Inr markup \<and> render d = Inr (ad_reply d markup)"
  by (simp add: render_def ad_buttons_valid)

text \<open>
  The three ways through \<^verbatim>\<open>show_ads_common\<close>, for any reply target: the cooldown denies;
  it allows and the fetch returns None; it allows and the fetch returns a payload. Each
  ends in one call of a reply method on the target.
\<close>

lemma show_ads_common_denied:
  "\<not> fst (cooldown_ok m u now) \<Longrightarrow>
   show_ads_common world B now m u rt =
     (m,
      TimeTime # fst (reply rt (ReplyText (PStr WAIT_NOTICE) None None False)),
      snd (reply rt (ReplyText (PStr WAIT_NOTICE) None None False)))"
  by (simp add: show_ads_common_def cooldown_ok_denied_eq case_prod_beta)

lemma show_ads_common_no_ad:
  "fst (cooldown_ok m u now) \<Longrightarrow> snd (fetch_ad world B u) = Inr None \<Longrightarrow>
   show_ads_common world B now m u rt =
     (m(u \<mapsto> now),
      TimeTime # fst (fetch_ad world B u)
        @ fst (reply rt (ReplyText (PStr NO_AD_NOTICE) None None False)),
      snd (reply rt (ReplyText (PStr NO_AD_NOTICE) None None False)))"
  by (cases "fetch_ad world B u")
     (simp add: show_ads_common_def cooldown_ok_allowed_eq case_prod_beta)

lemma show_ads_common_ad:
  assumes "fst (cooldown_ok m u now)" and "snd (fetch_ad world B u) = Inr (Some d)"
  shows "\<exists>markup. ad_buttons d = Inr markup \<and>
     show_ads_common world B now m u rt =
       (m(u \<mapsto> now),
        TimeTime # fst (fetch_ad world B u) @ fst (reply rt (ad_reply d markup)),
        snd (reply rt (ad_reply d markup)))"
proof -
  from assms(2) have valid: "truthy (dict_get d ''button_name'')"
    by (auto simp: fetch_ad_Some_iff)
  then obtain markup where mk: "ad_buttons d = Inr markup"
    by (simp add: ad_buttons_valid)
  from valid have ne: "truthy (PDict d)" by (rule truthy_get_nonempty)
  from assms mk ne show ?thesis
    by (cases "fetch_ad world B u")
       (simp add: show_ads_common_def cooldown_ok_allowed_eq render_def case_prod_beta)
qed

lemma show_ads_common_cases:
  obtains
    (denied) "\<not> fst (cooldown_ok m u now)"
      "show_ads_common world B now m u rt =
         (m,
          TimeTime # fst (reply rt (ReplyText (PStr WAIT_NOTICE) None None False)),
          snd (reply rt (ReplyText (PStr WAIT_NOTICE) None None False)))"
  | (no_ad) "fst (cooldown_ok m u now)" "snd (fetch_ad world B u) = Inr None"
      "show_ads_common world B now m u rt =
         (m(u \<mapsto> now),
          TimeTime # fst (fetch_ad world B u)
            @ fst (reply rt (ReplyText (PStr NO_AD_NOTICE) None None False)),
          snd (reply rt (ReplyText (PStr NO_AD_NOTICE) None None False)))"
  | (ad) d markup where "fst (cooldown_ok m u now)" "snd (fetch_ad world B u) = Inr (Some d)"
      "ad_buttons d = Inr markup" "render d = Inr (ad_reply d markup)"
      "show_ads_common world B now m u rt =
         (m(u \<mapsto> now),
          TimeTime # fst (fetch_ad world B u) @ fst (reply rt (ad_reply d markup)),
          snd (reply rt (ad_reply d markup)))"
proof (cases "fst (cooldown_ok m u now)")
  case False
  then show ?thesis using denied show_ads_common_denied by blast
next
  case ok: True
  from fetch_ad_returns [of world B u] show ?thesis
  proof
    assume none: "snd (fetch_ad world B u) = Inr None"
    with ok show ?thesis using no_ad show_ads_common_no_ad by blast
  next
    assume "\<exists>d. snd (fetch_ad world B u) = Inr (Some d)"
    then obtain d where some: "snd (fetch_ad world B u) = Inr (Some d)" ..
    from show_ads_common_ad [OF ok some, of rt] obtain markup where
      mk: "ad_buttons d = Inr markup" and
      res: "show_ads_common world B now m u rt =
         (m(u \<mapsto> now),
          TimeTime # fst (fetch_ad world B u) @ fst (reply rt (ad_reply d markup)),
          snd (reply rt (ad_reply d markup)))"
      by blast
    from mk have "render d = Inr (ad_reply d markup)" by (simp add: render_def)
    with ok some mk res show ?thesis using ad by blast
  qed
qed

lemma show_ads_common_starts:
  "\<exists>rest. events (show_ads_common world B now m u rt) = TimeTime # rest"
  by (cases rule: show_ads_common_cases [of m u now world B rt]) (simp_all add: events_def)

lemma show_ads_common_requests:
  "filter is_request (events (show_ads_common world B now m u rt))
     = (if fst (cooldown_ok m u now) then [RequestsGet (ad_url B u) 10] else [])"
proof (cases rule: show_ads_common_cases [of m u now world B rt])
  case denied
  then show ?thesis by (simp add: events_def reply_no_request)
next
  case no_ad
  then show ?thesis by (simp add: events_def fetch_ad_requests reply_no_request)
next
  case (ad d markup)
  have "\<not> is_request (ad_reply d markup)" by (simp add: ad_reply_def Let_def)
  with ad show ?thesis by (simp add: events_def fetch_ad_requests reply_no_request)
qed

lemma show_ads_common_markup:
  assumes "ev \<in> set (events (show_ads_common world B now m u rt))" and "reply_markup ev \<noteq> None"
  shows "fst (cooldown_ok m u now) \<and> (\<exists>d. snd (fetch_ad world B u) = Inr (Some d))"
proof (cases rule: show_ads_common_cases [of m u now world B rt])
  case denied
  with assms show ?thesis by (auto simp: events_def dest!: reply_member)
next
  case no_ad
  with assms show ?thesis
    by (auto simp: events_def fetch_ad_events_no_markup dest!: reply_member)
next
  case (ad d markup)
  then show ?thesis by blast
qed

lemma show_ads_common_map:
  "fst (show_ads_common world B now m u rt)
     = (if fst (cooldown_ok m u now) then m(u \<mapsto> now) else m)"
  by (cases rule: show_ads_common_cases [of m u now world B rt]) simp_all

lemma show_ads_common_no_target:
  "show_ads_common world B now m u None
     = (if fst (cooldown_ok m u now) then m(u \<mapsto> now) else m,
        TimeTime # (if fst (cooldown_ok m u now) then fst (fetch_ad world B u) else []),
        Some AttributeError)"
  by (cases rule: show_ads_common_cases [of m u now world B None]) (simp_all add: reply_None)

text \<open>
  The examples: what the fetcher and the renderer do with the payload
  \<^verbatim>\<open>{"button_name": "View"}\<close>, what the fetcher does with a 404, and the cooldown of a
  user who asks at time 100 and again at time 104.
\<close>

lemma view_ad_valid: "truthy (dict_get view_ad ''button_name'')"
  by (simp add: view_ad_def dict_get_def dict_get_default_def)

lemma render_view_ad:
  "render view_ad
     = Inr (ReplyText (PStr ''Sponsored'') (Some HTML)
              (Some [[InlineKeyboardButton (PStr ''View'') (PStr ''https://t.me'')]]) True)"
  by (simp add: render_def ad_buttons_def ad_reply_def getitem_def view_ad_def dict_get_def
      dict_get_default_def py_or_def FALLBACK_URL_def)

lemma fetch_ad_view_ad:
  "fetch_ad (world_status 200 (PDict view_ad)) ''14249'' 7
     = ([RequestsGet ''https://api.adsgram.ai/advbot?tgid=7&blockid=14249'' 10], Inr (Some view_ad))"
  by (simp add: fetch_ad_Responds [of _ _ _ "\<lparr>status_code = 200, resp_text = [], resp_json = Inr (PDict view_ad)\<rparr>"]
      world_status_def view_ad_valid ad_url_example)

lemma fetch_ad_404:
  "fetch_ad (world_status 404 PNone) ''14249'' 7
     = ([RequestsGet ''https://api.adsgram.ai/advbot?tgid=7&blockid=14249'' 10,
         LogWarning 404 []], Inr None)"
  by (simp add: fetch_ad_Responds [of _ _ _ "\<lparr>status_code = 404, resp_text = [], resp_json = Inr PNone\<rparr>"]
      world_status_def ad_url_example)

lemma cooldown_first_100: "fst (cooldown_ok last_ad_at_init 7 100)"
  by (simp add: cooldown_ok_fst last_ad_at_init_def)

lemma cooldown_again_104: "\<not> fst (cooldown_ok (last_ad_at_init(7 \<mapsto> 100)) 7 104)"
  by (simp add: cooldown_ok_fst)

text \<open>
  When the reply target is a message, an ad request runs as the sequence says. It
  starts with the cooldown check, which reads the clock before anything else. The trace
  holds one HTTP request when the check allows and none when it denies. When the check
  denies, the handler sends the wait notice and nothing else. When it allows and the
  fetch returns None, the handler sends the no-ad notice as its only reply. When it
  allows and the fetch returns a payload, the only reply is the rendered message. A
  reply with an inline keyboard, which is what a rendered ad is, is sent only when the
  check allowed and the fetch returned a payload. A tap with the callback data
  \<^verbatim>\<open>show_ads\<close> runs the same sequence after the acknowledgement.
\<close>

lemma show_ads_common_sequence:
  "(\<exists>rest. events (show_ads_common world B now m u (Some rt)) = TimeTime # rest)
   \<and> filter is_request (events (show_ads_common world B now m u (Some rt)))
       = (if fst (cooldown_ok m u now) then [RequestsGet (ad_url B u) 10] else [])
   \<and> (\<not> fst (cooldown_ok m u now) \<longrightarrow>
        show_ads_common world B now m u (Some rt)
          = (m, [TimeTime, ReplyText (PStr WAIT_NOTICE) None None False], None))
   \<and> (fst (cooldown_ok m u now) \<and> snd (fetch_ad world B u) = Inr None \<longrightarrow>
        show_ads_common world B now m u (Some rt)
          = (m(u \<mapsto> now),
             TimeTime # fst (fetch_ad world B u)
               @ [ReplyText (PStr NO_AD_NOTICE) None None False],
             None)
        \<and> filter is_reply (events (show_ads_common world B now m u (Some rt)))
            = [ReplyText (PStr NO_AD_NOTICE) None None False])
   \<and> (fst (cooldown_ok m u now) \<and> snd (fetch_ad world B u) = Inr (Some d) \<longrightarrow>
        (\<exists>msg. render d = Inr msg
           \<and> show_ads_common world B now m u (Some rt)
               = (m(u \<mapsto> now), TimeTime # fst (fetch_ad world B u) @ [msg], None)
           \<and> filter is_reply (events (show_ads_common world B now m u (Some rt))) = [msg]))
   \<and> ((\<exists>ev \<in> set (events (show_ads_common world B now m u (Some rt))).
          reply_markup ev \<noteq> None) \<longrightarrow>
        fst (cooldown_ok m u now) \<and> (\<exists>d. snd (fetch_ad world B u) = Inr (Some d)))
   \<and> ads_cmd world B now m u (Some rt) = show_ads_common world B now m u (Some rt)
   \<and> button_cb world B now m u (Some ''show_ads'') (Some rt)
       = (fst (show_ads_common world B now m u (Some rt)),
          QueryAnswer # events (show_ads_common world B now m u (Some rt)),
          snd (snd (show_ads_common world B now m u (Some rt))))"
proof -
  have c1: "\<exists>rest. events (show_ads_common world B now m u (Some rt)) = TimeTime # rest"
    by (rule show_ads_common_starts)
  have c2: "filter is_request (events (show_ads_common world B now m u (Some rt)))
       = (if fst (cooldown_ok m u now) then [RequestsGet (ad_url B u) 10] else [])"
    by (rule show_ads_common_requests)
  have c3: "\<not> fst (cooldown_ok m u now) \<longrightarrow>
        show_ads_common world B now m u (Some rt)
          = (m, [TimeTime, ReplyText (PStr WAIT_NOTICE) None None False], None)"
    by (simp add: show_ads_common_denied reply_Some)
  have c4: "fst (cooldown_ok m u now) \<and> snd (fetch_ad world B u) = Inr None \<longrightarrow>
        show_ads_common world B now m u (Some rt)
          = (m(u \<mapsto> now),
             TimeTime # fst (fetch_ad world B u)
               @ [ReplyText (PStr NO_AD_NOTICE) None None False],
             None)
        \<and> filter is_reply (events (show_ads_common world B now m u (Some rt)))
            = [ReplyText (PStr NO_AD_NOTICE) None None False]"
    by (simp add: show_ads_common_no_ad reply_Some events_def fetch_ad_no_reply)
  have c5: "fst (cooldown_ok m u now) \<and> snd (fetch_ad world B u) = Inr (Some d) \<longrightarrow>
        (\<exists>msg. render d = Inr msg
           \<and> show_ads_common world B now m u (Some rt)
               = (m(u \<mapsto> now), TimeTime # fst (fetch_ad world B u) @ [msg], None)
           \<and> filter is_reply (events (show_ads_common world B now m u (Some rt))) = [msg])"
  proof (intro impI, elim conjE)
    assume ok: "fst (cooldown_ok m u now)" and some: "snd (fetch_ad world B u) = Inr (Some d)"
    from show_ads_common_ad [OF ok some, of "Some rt"] obtain markup where
      mk: "ad_buttons d = Inr markup" and
      res: "show_ads_common world B now m u (Some rt) =
         (m(u \<mapsto> now), TimeTime # fst (fetch_ad world B u) @ [ad_reply d markup], None)"
      by (auto simp: reply_Some)
    from mk have r: "render d = Inr (ad_reply d markup)" by (simp add: render_def)
    have f: "filter is_reply (events (show_ads_common world B now m u (Some rt)))
        = [ad_reply d markup]"
      by (simp add: res events_def fetch_ad_no_reply is_reply_ad_reply)
    from r res f show "\<exists>msg. render d = Inr msg
           \<and> show_ads_common world B now m u (Some rt)
               = (m(u \<mapsto> now), TimeTime # fst (fetch_ad world B u) @ [msg], None)
           \<and> filter is_reply (events (show_ads_common world B now m u (Some rt))) = [msg]"
      by (intro exI [of _ "ad_reply d markup"] conjI)
  qed
  have c6: "(\<exists>ev \<in> set (events (show_ads_common world B now m u (Some rt))).
          reply_markup ev \<noteq> None) \<longrightarrow>
        fst (cooldown_ok m u now) \<and> (\<exists>d. snd (fetch_ad world B u) = Inr (Some d))"
    using show_ads_common_markup [of _ world B now m u "Some rt"] by blast
  have c7: "ads_cmd world B now m u (Some rt) = show_ads_common world B now m u (Some rt)"
    by (simp add: ads_cmd_def)
  have c8: "button_cb world B now m u (Some ''show_ads'') (Some rt)
       = (fst (show_ads_common world B now m u (Some rt)),
          QueryAnswer # events (show_ads_common world B now m u (Some rt)),
          snd (snd (show_ads_common world B now m u (Some rt))))"
    by (simp add: button_cb_def events_def split: prod.splits)
  show ?thesis
    by (intro conjI; fact c1 c2 c3 c4 c5 c6 c7 c8)
qed

text \<open>
  With a message to reply to: at time 100 a user with no record is served the ad
  \<^verbatim>\<open>{"button_name": "View"}\<close>; with a 404 from the network the same user gets the no-ad
  notice; asking again at time 104 gets the wait notice, with no request made.
\<close>

lemma show_ads_common_served:
  "show_ads_common (world_status 200 (PDict view_ad)) ''14249'' 100 last_ad_at_init 7
     (Some (Message 1))
     = (last_ad_at_init(7 \<mapsto> 100),
        [TimeTime,
         RequestsGet ''https://api.adsgram.ai/advbot?tgid=7&blockid=14249'' 10,
         ReplyText (PStr ''Sponsored'') (Some HTML)
           (Some [[InlineKeyboardButton (PStr ''View'') (PStr ''https://t.me'')]]) True],
        None)"
proof -
  have some: "snd (fetch_ad (world_status 200 (PDict view_ad)) ''14249'' 7) = Inr (Some view_ad)"
    by (simp add: fetch_ad_view_ad)
  from show_ads_common_sequence [of "world_status 200 (PDict view_ad)" "''14249''" 100
      last_ad_at_init 7 "Message 1" view_ad,
      THEN conjunct2, THEN conjunct2, THEN conjunct2, THEN conjunct2, THEN conjunct1]
    cooldown_first_100 some
  obtain msg where
    r: "render view_ad = Inr msg" and
    res: "show_ads_common (world_status 200 (PDict view_ad)) ''14249'' 100 last_ad_at_init 7
         (Some (Message 1))
       = (last_ad_at_init(7 \<mapsto> 100),
          TimeTime # fst (fetch_ad (world_status 200 (PDict view_ad)) ''14249'' 7) @ [msg],
          None)"
    by blast
  from r have msg: "msg = ReplyText (PStr ''Sponsored'') (Some HTML)
             (Some [[InlineKeyboardButton (PStr ''View'') (PStr ''https://t.me'')]]) True"
    by (simp add: render_view_ad)
  show ?thesis
    unfolding res msg fetch_ad_view_ad by simp
qed

lemma show_ads_common_unserved:
  "show_ads_common (world_status 404 PNone) ''14249'' 100 last_ad_at_init 7 (Some (Message 1))
     = (last_ad_at_init(7 \<mapsto> 100),
        [TimeTime,
         RequestsGet ''https://api.adsgram.ai/advbot?tgid=7&blockid=14249'' 10,
         LogWarning 404 [],
         ReplyText (PStr NO_AD_NOTICE) None None False],
        None)"
proof -
  have none: "snd (fetch_ad (world_status 404 PNone) ''14249'' 7) = Inr None"
    by (simp add: fetch_ad_404)
  have "show_ads_common (world_status 404 PNone) ''14249'' 100 last_ad_at_init 7
         (Some (Message 1))
       = (last_ad_at_init(7 \<mapsto> 100),
          TimeTime # fst (fetch_ad (world_status 404 PNone) ''14249'' 7)
            @ fst (reply (Some (Message 1)) (ReplyText (PStr NO_AD_NOTICE) None None False)),
          snd (reply (Some (Message 1)) (ReplyText (PStr NO_AD_NOTICE) None None False)))"
    using cooldown_first_100 none by (rule show_ads_common_no_ad)
  then show ?thesis
    unfolding fetch_ad_404 reply_Some by simp
qed

lemma show_ads_common_refused:
  "show_ads_common (world_status 200 (PDict view_ad)) ''14249'' 104
     (last_ad_at_init(7 \<mapsto> 100)) 7 (Some (Message 1))
     = (last_ad_at_init(7 \<mapsto> 100),
        [TimeTime, ReplyText (PStr WAIT_NOTICE) None None False],
        None)"
  using cooldown_again_104 by (simp add: show_ads_common_denied reply_Some)

text \<open>
  C3. Every ad request is to end in a reply: the wait notice when the cooldown check
  denies, the no-ad notice when the fetch returns None, the rendered ad otherwise. The
  docstring of \<^verbatim>\<open>show_ads_common\<close> says that \<^verbatim>\<open>reply_target\<close> is a message. But
  \<^verbatim>\<open>ads_cmd\<close> passes \<^verbatim>\<open>update.message\<close>, which is None when the \<^verbatim>\<open>/ads\<close> command
  arrives as an edited message. Then, whatever the world and the cooldown map are, the
  handler checks the cooldown (and records the time when the check allows), makes the
  request when the check allows, and raises AttributeError at the reply: the trace
  holds no reply at all. A user with the record 100 who edits a message into \<^verbatim>\<open>/ads\<close> at
  time 104 gets no wait notice, and a user with no record whose request at time 100
  meets a 404 gets no no-ad notice, although the time 100 has been recorded.
\<close>

theorem ads_cmd_edited_message_no_reply:
  "ads_cmd world B now m u None = show_ads_common world B now m u None
   \<and> ads_cmd world B now m u None
       = (if fst (cooldown_ok m u now) then m(u \<mapsto> now) else m,
          TimeTime # (if fst (cooldown_ok m u now) then fst (fetch_ad world B u) else []),
          Some AttributeError)
   \<and> filter is_reply (events (ads_cmd world B now m u None)) = []
   \<and> ads_cmd (world_status 200 (PDict view_ad)) ''14249'' 104
         (last_ad_at_init(7 \<mapsto> 100)) 7 None
       = (last_ad_at_init(7 \<mapsto> 100), [TimeTime], Some AttributeError)
   \<and> ads_cmd (world_status 404 PNone) ''14249'' 100 last_ad_at_init 7 None
       = (last_ad_at_init(7 \<mapsto> 100),
          [TimeTime,
           RequestsGet ''https://api.adsgram.ai/advbot?tgid=7&blockid=14249'' 10,
           LogWarning 404 []],
          Some AttributeError)"
proof -
  have a: "ads_cmd world B now m u None = show_ads_common world B now m u None"
    by (simp add: ads_cmd_def)
  have b: "ads_cmd world B now m u None
       = (if fst (cooldown_ok m u now) then m(u \<mapsto> now) else m,
          TimeTime # (if fst (cooldown_ok m u now) then fst (fetch_ad world B u) else []),
          Some AttributeError)"
    unfolding a by (rule show_ads_common_no_target)
  have c: "filter is_reply (events (ads_cmd world B now m u None)) = []"
    unfolding b by (simp add: events_def fetch_ad_no_reply)
  have d: "ads_cmd (world_status 200 (PDict view_ad)) ''14249'' 104
         (last_ad_at_init(7 \<mapsto> 100)) 7 None
       = (last_ad_at_init(7 \<mapsto> 100), [TimeTime], Some AttributeError)"
    using cooldown_again_104 by (simp add: ads_cmd_def show_ads_common_no_target)
  have e: "ads_cmd (world_status 404 PNone) ''14249'' 100 last_ad_at_init 7 None
       = (last_ad_at_init(7 \<mapsto> 100),
          [TimeTime,
           RequestsGet ''https://api.adsgram.ai/advbot?tgid=7&blockid=14249'' 10,
           LogWarning 404 []],
          Some AttributeError)"
    using cooldown_first_100 by (simp add: ads_cmd_def show_ads_common_no_target fetch_ad_404)
  show ?thesis
    by (intro conjI; fact a b c d e)
qed

text \<open>
  C10. When the cooldown check allows, the map after the handler holds the time of the
  check for the user, whatever the world does with the request (a payload, None or an
  exception inside the fetcher) and whatever the reply target is. So a user whose
  request ended in the no-ad notice is denied, with the wait notice, on any request
  less than 8 seconds after that check, and is allowed again from 8 seconds after it.
\<close>

theorem show_ads_common_records_time:
  "(fst (cooldown_ok m u now) \<longrightarrow> fst (show_ads_common world B now m u rt) = m(u \<mapsto> now))
   \<and> (fst (cooldown_ok m u now) \<and> snd (fetch_ad world B u) = Inr None \<and> now' - now < 8 \<longrightarrow>
        filter is_reply (events (show_ads_common world B now m u (Some msg)))
          = [ReplyText (PStr NO_AD_NOTICE) None None False]
        \<and> show_ads_common world' B now' (fst (show_ads_common world B now m u rt)) u
              (Some msg')
            = (m(u \<mapsto> now), [TimeTime, ReplyText (PStr WAIT_NOTICE) None None False], None)
        \<and> \<not> fst (cooldown_ok (fst (show_ads_common world B now m u rt)) u now'))
   \<and> (fst (cooldown_ok m u now) \<and> 8 \<le> now' - now \<longrightarrow>
        fst (cooldown_ok (fst (show_ads_common world B now m u rt)) u now'))"
proof -
  have c1: "fst (cooldown_ok m u now) \<longrightarrow>
      fst (show_ads_common world B now m u rt) = m(u \<mapsto> now)"
    by (simp add: show_ads_common_map)
  have c2: "fst (cooldown_ok m u now) \<and> snd (fetch_ad world B u) = Inr None \<and> now' - now < 8 \<longrightarrow>
        filter is_reply (events (show_ads_common world B now m u (Some msg)))
          = [ReplyText (PStr NO_AD_NOTICE) None None False]
        \<and> show_ads_common world' B now' (fst (show_ads_common world B now m u rt)) u
              (Some msg')
            = (m(u \<mapsto> now), [TimeTime, ReplyText (PStr WAIT_NOTICE) None None False], None)
        \<and> \<not> fst (cooldown_ok (fst (show_ads_common world B now m u rt)) u now')"
  proof (intro impI, elim conjE)
    assume ok: "fst (cooldown_ok m u now)" and none: "snd (fetch_ad world B u) = Inr None"
      and soon: "now' - now < 8"
    have notice: "filter is_reply (events (show_ads_common world B now m u (Some msg)))
          = [ReplyText (PStr NO_AD_NOTICE) None None False]"
      by (simp add: show_ads_common_no_ad [OF ok none] reply_Some events_def fetch_ad_no_reply)
    from ok have after: "fst (show_ads_common world B now m u rt) = m(u \<mapsto> now)"
      by (simp add: show_ads_common_map)
    from soon have denied: "\<not> fst (cooldown_ok (m(u \<mapsto> now)) u now')"
      by (simp add: cooldown_ok_fst)
    then have "show_ads_common world' B now' (m(u \<mapsto> now)) u (Some msg')
            = (m(u \<mapsto> now), [TimeTime, ReplyText (PStr WAIT_NOTICE) None None False], None)"
      by (simp add: show_ads_common_denied reply_Some)
    with notice after denied
    show "filter is_reply (events (show_ads_common world B now m u (Some msg)))
          = [ReplyText (PStr NO_AD_NOTICE) None None False]
        \<and> show_ads_common world' B now' (fst (show_ads_common world B now m u rt)) u
              (Some msg')
            = (m(u \<mapsto> now), [TimeTime, ReplyText (PStr WAIT_NOTICE) None None False], None)
        \<and> \<not> fst (cooldown_ok (fst (show_ads_common world B now m u rt)) u now')"
      by simp
  qed
  have c3: "fst (cooldown_ok m u now) \<and> 8 \<le> now' - now \<longrightarrow>
        fst (cooldown_ok (fst (show_ads_common world B now m u rt)) u now')"
    by (simp add: show_ads_common_map cooldown_ok_fst)
  show ?thesis
    by (intro conjI; fact c1 c2 c3)
qed

text \<open>
  A user with no record asks at time 100 and the network answers 404: the no-ad notice
  is sent and the timestamp is 100. Asking at 107 gets the wait notice; at 108 the check
  allows.
\<close>

theorem show_ads_common_records_time_witness:
  "fst (cooldown_ok last_ad_at_init 7 100)
   \<and> snd (fetch_ad (world_status 404 PNone) ''14249'' 7) = Inr None
   \<and> (107 :: real) - 100 < 8
   \<and> fst (show_ads_common (world_status 404 PNone) ''14249'' 100 last_ad_at_init 7
         (Some (Message 1)))
       = last_ad_at_init(7 \<mapsto> 100)
   \<and> filter is_reply (events (show_ads_common (world_status 404 PNone) ''14249'' 100
         last_ad_at_init 7 (Some (Message 1))))
       = [ReplyText (PStr NO_AD_NOTICE) None None False]
   \<and> show_ads_common (world_status 200 (PDict view_ad)) ''14249'' 107
         (fst (show_ads_common (world_status 404 PNone) ''14249'' 100 last_ad_at_init 7
                (Some (Message 1)))) 7 (Some (Message 2))
       = (last_ad_at_init(7 \<mapsto> 100),
          [TimeTime, ReplyText (PStr WAIT_NOTICE) None None False], None)
   \<and> (8 :: real) \<le> 108 - 100
   \<and> fst (cooldown_ok
         (fst (show_ads_common (world_status 404 PNone) ''14249'' 100 last_ad_at_init 7
                (Some (Message 1)))) 7 108)"
proof -
  note ok = cooldown_first_100
  have none: "snd (fetch_ad (world_status 404 PNone) ''14249'' 7) = Inr None"
    by (simp add: fetch_ad_404)
  have soon: "(107 :: real) - 100 < 8" by simp
  have late: "(8 :: real) \<le> 108 - 100" by simp
  note a = show_ads_common_records_time [of last_ad_at_init 7 100 "world_status 404 PNone"
      "''14249''" "Some (Message 1)", THEN conjunct1]
  note b = show_ads_common_records_time [of last_ad_at_init 7 100 "world_status 404 PNone"
      "''14249''" "Some (Message 1)" 107 "Message 1" "world_status 200 (PDict view_ad)"
      "Message 2", THEN conjunct2, THEN conjunct1]
  note c = show_ads_common_records_time [of last_ad_at_init 7 100 "world_status 404 PNone"
      "''14249''" "Some (Message 1)" 108, THEN conjunct2, THEN conjunct2]
  from a ok
  have r1: "fst (show_ads_common (world_status 404 PNone) ''14249'' 100 last_ad_at_init 7
         (Some (Message 1)))
       = last_ad_at_init(7 \<mapsto> 100)"
    by blast
  from b ok none soon
  have r2: "filter is_reply (events (show_ads_common (world_status 404 PNone) ''14249'' 100
         last_ad_at_init 7 (Some (Message 1))))
       = [ReplyText (PStr NO_AD_NOTICE) None None False]
     \<and> show_ads_common (world_status 200 (PDict view_ad)) ''14249'' 107
         (fst (show_ads_common (world_status 404 PNone) ''14249'' 100 last_ad_at_init 7
                (Some (Message 1)))) 7 (Some (Message 2))
       = (last_ad_at_init(7 \<mapsto> 100),
          [TimeTime, ReplyText (PStr WAIT_NOTICE) None None False], None)"
    by blast
  from c ok late
  have r3: "fst (cooldown_ok
         (fst (show_ads_common (world_status 404 PNone) ''14249'' 100 last_ad_at_init 7
                (Some (Message 1)))) 7 108)"
    by blast
  from ok none soon r1 r2 late r3 show ?thesis
    by (intro conjI) blast+
qed

section \<open>The button callback\<close>

lemma button_cb_other:
  "data \<noteq> Some ''show_ads'' \<Longrightarrow>
   button_cb world B now m u data qm = (m, [QueryAnswer], None)"
  by (simp add: button_cb_def)

lemma button_cb_show_ads:
  "button_cb world B now m u (Some ''show_ads'') qm
     = (fst (show_ads_common world B now m u qm),
        QueryAnswer # events (show_ads_common world B now m u qm),
        snd (snd (show_ads_common world B now m u qm)))"
  by (simp add: button_cb_def events_def split: prod.splits)

text \<open>
  C8. For every tap, whatever its callback data and whatever the message of the query,
  the first call of \<^verbatim>\<open>button_cb\<close> is the acknowledgement \<^verbatim>\<open>query.answer()\<close>. With callback
  data other than \<^verbatim>\<open>show_ads\<close> (or none) it is the only call: the cooldown map is
  unchanged and nothing is replied. With \<^verbatim>\<open>show_ads\<close> the acknowledgement is followed by
  the ad sequence, which begins with the cooldown check. Any event other than the
  acknowledgement in the trace means the data was \<^verbatim>\<open>show_ads\<close>.
\<close>

theorem button_cb_acknowledges:
  "(\<exists>rest. events (button_cb world B now m u data qm) = QueryAnswer # rest)
   \<and> (data \<noteq> Some ''show_ads'' \<longrightarrow>
        button_cb world B now m u data qm = (m, [QueryAnswer], None))
   \<and> (data = Some ''show_ads'' \<longrightarrow>
        fst (button_cb world B now m u data qm) = fst (show_ads_common world B now m u qm)
        \<and> events (button_cb world B now m u data qm)
            = QueryAnswer # events (show_ads_common world B now m u qm)
        \<and> (\<exists>rest. events (button_cb world B now m u data qm) = QueryAnswer # TimeTime # rest))
   \<and> ((\<exists>ev \<in> set (events (button_cb world B now m u data qm)). ev \<noteq> QueryAnswer) \<longrightarrow>
        data = Some ''show_ads'')"
proof (cases "data = Some ''show_ads''")
  case True
  from show_ads_common_starts [of world B now m u qm] obtain rest where
    "events (show_ads_common world B now m u qm) = TimeTime # rest" ..
  with True show ?thesis
    by (simp add: button_cb_show_ads events_def)
next
  case False
  then show ?thesis
    by (simp add: button_cb_other events_def)
qed

text \<open>
  Taps with the data \<^verbatim>\<open>noop\<close> and with no data are acknowledged and nothing more; a
  tap with \<^verbatim>\<open>show_ads\<close> is acknowledged and then served.
\<close>

theorem button_cb_acknowledges_witness:
  "Some ''noop'' \<noteq> Some ''show_ads''
   \<and> button_cb (world_status 200 (PDict view_ad)) ''14249'' 100 last_ad_at_init 7 (Some ''noop'')
         (Some (Message 1))
       = (last_ad_at_init, [QueryAnswer], None)
   \<and> button_cb (world_status 200 (PDict view_ad)) ''14249'' 100 last_ad_at_init 7 None
         (Some (Message 1))
       = (last_ad_at_init, [QueryAnswer], None)
   \<and> events (button_cb (world_status 200 (PDict view_ad)) ''14249'' 100 last_ad_at_init 7
         (Some ''show_ads'') (Some (Message 1)))
       = QueryAnswer
         # events (show_ads_common (world_status 200 (PDict view_ad)) ''14249'' 100
             last_ad_at_init 7 (Some (Message 1)))"
proof -
  have ne: "Some ''noop'' \<noteq> Some ''show_ads''" by simp
  have ne': "None \<noteq> Some ''show_ads''" by simp
  note other = button_cb_acknowledges [THEN conjunct2, THEN conjunct1, rule_format]
  note same = button_cb_acknowledges [THEN conjunct2, THEN conjunct2, THEN conjunct1,
      rule_format, THEN conjunct2, THEN conjunct1]
  from ne other [OF ne] other [OF ne'] same [OF refl] show ?thesis
    by (intro conjI)
qed

section \<open>The renderer\<close>

text \<open>
  A payload is valid when its \<^verbatim>\<open>button_name\<close> passes the truth test, which is what the
  fetcher checks before returning it. A field is \<^emph>\<open>present\<close> when the payload binds it to
  a value that passes the truth test (for a string: not empty), and \<^emph>\<open>absent\<close> otherwise:
  when the payload has no such key, or binds it to null or to the empty string.
\<close>

lemma reward_ad_valid: "truthy (dict_get reward_ad ''button_name'')"
  by (simp add: reward_ad_def dict_get_def dict_get_default_def)

lemma image_ad_valid: "truthy (dict_get image_ad ''button_name'')"
  by (simp add: image_ad_def dict_get_def dict_get_default_def)

lemma reply_markup_ad_reply: "reply_markup (ad_reply ad markup) = Some markup"
  by (simp add: ad_reply_def Let_def)

lemma protect_content_ad_reply: "protect_content (ad_reply ad markup)"
  by (simp add: ad_reply_def Let_def)

lemma reply_parse_mode_ad_reply: "reply_parse_mode (ad_reply ad markup) = Some HTML"
  by (simp add: ad_reply_def Let_def)

lemma reply_body_ad_reply:
  "reply_body (ad_reply ad markup)
     = Some (if truthy (dict_get ad ''text_html'') then dict_get ad ''text_html''
             else PStr ''Sponsored'')"
  by (simp add: ad_reply_def Let_def py_or_def)

lemma reply_photo_ad_reply:
  "reply_photo (ad_reply ad markup)
     = (if truthy (dict_get ad ''image_url'') then Some (dict_get ad ''image_url'') else None)"
  by (simp add: ad_reply_def Let_def)

text \<open>
  The keyboard of the code. For every valid payload the message is rendered, and the
  first row of its keyboard is one button with the payload's \<^verbatim>\<open>button_name\<close> as label,
  targeting whatever the payload binds \<^verbatim>\<open>click_url\<close> to, or the fallback
  \<^verbatim>\<open>https://t.me\<close> when the payload has no key \<^verbatim>\<open>click_url\<close>. A second row with the
  reward button (label \<^verbatim>\<open>button_reward_name\<close>, target \<^verbatim>\<open>reward_url\<close>) follows if and
  only if both fields are present; otherwise the keyboard is the primary button alone.
\<close>

lemma render_buttons:
  "truthy (dict_get ad ''button_name'') \<longrightarrow>
     (\<exists>msg markup. render ad = Inr msg \<and> reply_markup msg = Some markup
        \<and> markup
            = [InlineKeyboardButton (dict_get ad ''button_name'')
                 (case map_of ad ''click_url'' of None \<Rightarrow> FALLBACK_URL | Some url \<Rightarrow> url)]
              # (if truthy (dict_get ad ''button_reward_name'') \<and> truthy (dict_get ad ''reward_url'')
                 then [[InlineKeyboardButton (dict_get ad ''button_reward_name'')
                          (dict_get ad ''reward_url'')]]
                 else [])
        \<and> (length markup = 2)
            = (truthy (dict_get ad ''button_reward_name'') \<and> truthy (dict_get ad ''reward_url''))
        \<and> (length markup = 1)
            = (\<not> (truthy (dict_get ad ''button_reward_name'') \<and> truthy (dict_get ad ''reward_url''))))"
proof
  assume valid: "truthy (dict_get ad ''button_name'')"
  let ?markup = "[InlineKeyboardButton (dict_get ad ''button_name'')
                 (case map_of ad ''click_url'' of None \<Rightarrow> FALLBACK_URL | Some url \<Rightarrow> url)]
              # (if truthy (dict_get ad ''button_reward_name'') \<and> truthy (dict_get ad ''reward_url'')
                 then [[InlineKeyboardButton (dict_get ad ''button_reward_name'')
                          (dict_get ad ''reward_url'')]]
                 else [])"
  from valid have mk: "ad_buttons ad = Inr ?markup"
    by (simp add: ad_buttons_valid)
  then have r: "render ad = Inr (ad_reply ad ?markup)"
    by (simp add: render_def)
  have m: "reply_markup (ad_reply ad ?markup) = Some ?markup"
    by (rule reply_markup_ad_reply)
  have l2: "(length ?markup = 2)
            = (truthy (dict_get ad ''button_reward_name'') \<and> truthy (dict_get ad ''reward_url''))"
    by simp
  have l1: "(length ?markup = 1)
            = (\<not> (truthy (dict_get ad ''button_reward_name'') \<and> truthy (dict_get ad ''reward_url'')))"
    by simp
  from r m l2 l1 show "\<exists>msg markup. render ad = Inr msg \<and> reply_markup msg = Some markup
        \<and> markup = ?markup
        \<and> (length markup = 2)
            = (truthy (dict_get ad ''button_reward_name'') \<and> truthy (dict_get ad ''reward_url''))
        \<and> (length markup = 1)
            = (\<not> (truthy (dict_get ad ''button_reward_name'') \<and> truthy (dict_get ad ''reward_url'')))"
    by (intro exI [of _ "ad_reply ad ?markup"] exI [of _ ?markup] conjI refl)
qed

text \<open>
  The payload \<^verbatim>\<open>{"button_name": "View", "button_reward_name": "Claim", "reward_url":
  "https://x"}\<close> has no click URL: the primary button targets the fallback and the reward
  button is there. The payload with a click URL and no reward fields gets the one
  button, targeting its click URL.
\<close>

lemma render_buttons_examples:
  "truthy (dict_get reward_ad ''button_name'')
   \<and> (\<exists>msg. render reward_ad = Inr msg
        \<and> reply_markup msg
            = Some [[InlineKeyboardButton (PStr ''View'') (PStr ''https://t.me'')],
                    [InlineKeyboardButton (PStr ''Claim'') (PStr ''https://x'')]])
   \<and> truthy (dict_get image_ad ''button_name'')
   \<and> (\<exists>msg. render image_ad = Inr msg
        \<and> reply_markup msg
            = Some [[InlineKeyboardButton (PStr ''View'') (PStr ''https://ad.example/go'')]])"
proof -
  from render_buttons [of reward_ad, rule_format, OF reward_ad_valid]
  have a: "\<exists>msg. render reward_ad = Inr msg
        \<and> reply_markup msg
            = Some [[InlineKeyboardButton (PStr ''View'') (PStr ''https://t.me'')],
                    [InlineKeyboardButton (PStr ''Claim'') (PStr ''https://x'')]]"
    by (auto simp: reward_ad_def dict_get_def dict_get_default_def FALLBACK_URL_def)
  from render_buttons [of image_ad, rule_format, OF image_ad_valid]
  have b: "\<exists>msg. render image_ad = Inr msg
        \<and> reply_markup msg
            = Some [[InlineKeyboardButton (PStr ''View'') (PStr ''https://ad.example/go'')]]"
    by (auto simp: image_ad_def dict_get_def dict_get_default_def)
  from reward_ad_valid a image_ad_valid b show ?thesis
    by (intro conjI)
qed

text \<open>
  C5. The primary button is to target the payload's click URL, or the fallback URL when
  the click URL is absent. Line 114 takes the fallback from the default of
  \<^verbatim>\<open>ad.get("click_url", "https://t.me")\<close>, which stands in for a missing key only, while
  the reward fields (line 116) and the caption (line 122) are tested for truth. So a
  payload whose \<^verbatim>\<open>click_url\<close> is the empty string or null, click URL absent, is valid,
  is returned by the fetcher, and is rendered with a primary button that targets the
  empty string or None, not the fallback.
\<close>

theorem render_absent_click_url_no_fallback:
  "snd (fetch_ad (world_status 200 (PDict empty_click_ad)) ''14249'' 7)
     = Inr (Some empty_click_ad)
   \<and> truthy (dict_get empty_click_ad ''button_name'')
   \<and> \<not> truthy (dict_get empty_click_ad ''click_url'')
   \<and> render empty_click_ad
       = Inr (ReplyText (PStr ''Sponsored'') (Some HTML)
                (Some [[InlineKeyboardButton (PStr ''View'') (PStr [])]]) True)
   \<and> snd (fetch_ad (world_status 200 (PDict null_click_ad)) ''14249'' 7)
       = Inr (Some null_click_ad)
   \<and> truthy (dict_get null_click_ad ''button_name'')
   \<and> \<not> truthy (dict_get null_click_ad ''click_url'')
   \<and> render null_click_ad
       = Inr (ReplyText (PStr ''Sponsored'') (Some HTML)
                (Some [[InlineKeyboardButton (PStr ''View'') PNone]]) True)
   \<and> FALLBACK_URL = PStr ''https://t.me''"
proof -
  have v1: "truthy (dict_get empty_click_ad ''button_name'')"
    and a1: "\<not> truthy (dict_get empty_click_ad ''click_url'')"
    by (simp_all add: empty_click_ad_def dict_get_def dict_get_default_def)
  have v2: "truthy (dict_get null_click_ad ''button_name'')"
    and a2: "\<not> truthy (dict_get null_click_ad ''click_url'')"
    by (simp_all add: null_click_ad_def dict_get_def dict_get_default_def)
  have f1: "snd (fetch_ad (world_status 200 (PDict empty_click_ad)) ''14249'' 7)
      = Inr (Some empty_click_ad)"
    using v1 by (simp add: fetch_ad_Some_iff world_status_def)
  have f2: "snd (fetch_ad (world_status 200 (PDict null_click_ad)) ''14249'' 7)
      = Inr (Some null_click_ad)"
    using v2 by (simp add: fetch_ad_Some_iff world_status_def)
  have r1: "render empty_click_ad
       = Inr (ReplyText (PStr ''Sponsored'') (Some HTML)
                (Some [[InlineKeyboardButton (PStr ''View'') (PStr [])]]) True)"
    by (simp add: render_def ad_buttons_def ad_reply_def getitem_def empty_click_ad_def
        dict_get_def dict_get_default_def py_or_def)
  have r2: "render null_click_ad
       = Inr (ReplyText (PStr ''Sponsored'') (Some HTML)
                (Some [[InlineKeyboardButton (PStr ''View'') PNone]]) True)"
    by (simp add: render_def ad_buttons_def ad_reply_def getitem_def null_click_ad_def
        dict_get_def dict_get_default_def py_or_def)
  have fb: "FALLBACK_URL = PStr ''https://t.me''" by (simp add: FALLBACK_URL_def)
  from f1 v1 a1 r1 f2 v2 a2 r2 fb show ?thesis by (intro conjI)
qed

text \<open>
  C6. For every valid payload the body of the rendered message is the payload's
  \<^verbatim>\<open>text_html\<close> when present (not empty) and the text \<^verbatim>\<open>Sponsored\<close> otherwise. The message
  is a \<^verbatim>\<open>reply_photo\<close> with the payload's \<^verbatim>\<open>image_url\<close> as photo and the body as caption
  if and only if \<^verbatim>\<open>image_url\<close> is present (not empty), and a \<^verbatim>\<open>reply_text\<close> with the
  body as text otherwise. In both forms the parse mode is HTML and
  \<^verbatim>\<open>protect_content\<close> is set.
\<close>

theorem render_message:
  "truthy (dict_get ad ''button_name'') \<longrightarrow>
     (\<exists>msg. render ad = Inr msg
        \<and> reply_body msg
            = Some (if truthy (dict_get ad ''text_html'') then dict_get ad ''text_html''
                    else PStr ''Sponsored'')
        \<and> reply_photo msg
            = (if truthy (dict_get ad ''image_url'') then Some (dict_get ad ''image_url'')
               else None)
        \<and> (\<exists>photo body pm markup protect. msg = ReplyPhoto photo body pm markup protect)
            = truthy (dict_get ad ''image_url'')
        \<and> (\<exists>body pm markup protect. msg = ReplyText body pm markup protect)
            = (\<not> truthy (dict_get ad ''image_url''))
        \<and> reply_parse_mode msg = Some HTML
        \<and> protect_content msg)"
proof
  assume valid: "truthy (dict_get ad ''button_name'')"
  then obtain markup where r: "render ad = Inr (ad_reply ad markup)"
    using render_valid by blast
  have ph: "(\<exists>photo body pm mk protect. ad_reply ad markup = ReplyPhoto photo body pm mk protect)
            = truthy (dict_get ad ''image_url'')"
    by (auto simp: ad_reply_def Let_def)
  have tx: "(\<exists>body pm mk protect. ad_reply ad markup = ReplyText body pm mk protect)
            = (\<not> truthy (dict_get ad ''image_url''))"
    by (auto simp: ad_reply_def Let_def)
  from r ph tx show "\<exists>msg. render ad = Inr msg
        \<and> reply_body msg
            = Some (if truthy (dict_get ad ''text_html'') then dict_get ad ''text_html''
                    else PStr ''Sponsored'')
        \<and> reply_photo msg
            = (if truthy (dict_get ad ''image_url'') then Some (dict_get ad ''image_url'')
               else None)
        \<and> (\<exists>photo body pm markup protect. msg = ReplyPhoto photo body pm markup protect)
            = truthy (dict_get ad ''image_url'')
        \<and> (\<exists>body pm markup protect. msg = ReplyText body pm markup protect)
            = (\<not> truthy (dict_get ad ''image_url''))
        \<and> reply_parse_mode msg = Some HTML
        \<and> protect_content msg"
    by (intro exI [of _ "ad_reply ad markup"] conjI reply_body_ad_reply reply_photo_ad_reply
        reply_parse_mode_ad_reply protect_content_ad_reply)
qed

text \<open>
  \<^verbatim>\<open>{"button_name": "View"}\<close> is sent as text with the body \<^verbatim>\<open>Sponsored\<close>; the payload
  with a caption and an image is sent as a photo with the caption. Both are protected.
\<close>

theorem render_message_witness:
  "truthy (dict_get view_ad ''button_name'')
   \<and> (\<exists>msg. render view_ad = Inr msg
        \<and> reply_body msg = Some (PStr ''Sponsored'')
        \<and> reply_photo msg = None
        \<and> protect_content msg)
   \<and> truthy (dict_get image_ad ''button_name'')
   \<and> (\<exists>msg. render image_ad = Inr msg
        \<and> reply_body msg = Some (PStr ''<b>New</b> offer'')
        \<and> reply_photo msg = Some (PStr ''https://ad.example/banner.png'')
        \<and> protect_content msg)"
proof -
  from render_message [of view_ad, rule_format, OF view_ad_valid]
  have a: "\<exists>msg. render view_ad = Inr msg
        \<and> reply_body msg = Some (PStr ''Sponsored'')
        \<and> reply_photo msg = None
        \<and> protect_content msg"
    by (auto simp: view_ad_def dict_get_def dict_get_default_def)
  from render_message [of image_ad, rule_format, OF image_ad_valid]
  have b: "\<exists>msg. render image_ad = Inr msg
        \<and> reply_body msg = Some (PStr ''<b>New</b> offer'')
        \<and> reply_photo msg = Some (PStr ''https://ad.example/banner.png'')
        \<and> protect_content msg"
    by (auto simp: image_ad_def dict_get_def dict_get_default_def)
  from view_ad_valid a image_ad_valid b show ?thesis
    by (intro conjI)
qed

section \<open>Startup: the validation and the environment\<close>

text \<open>
  On the two values it reads, the validation passes exactly when the token is a string
  that is not empty and the block identifier is a string of digits; then \<^verbatim>\<open>main\<close> builds
  the application, registers the four handlers and polls. An unset or empty token
  raises the first error, and with a token an unset, empty or non-numeric block
  identifier raises the second; nothing of \<^verbatim>\<open>main\<close> has run then. This holds whatever
  the table of Unicode digits is.
\<close>

lemma isdigit_nonempty: "isdigit dg b \<Longrightarrow> b \<noteq> []"
  by (simp add: isdigit_def)

lemma startup_proceeds:
  "t \<noteq> [] \<Longrightarrow> isdigit dg b \<Longrightarrow> startup dg (Some t) (Some b) = Inr (main t)"
  by (simp add: startup_def validate_config_def isdigit_nonempty)

lemma startup_no_token:
  "tok = None \<or> tok = Some [] \<Longrightarrow>
   startup dg tok blk = Inl (RuntimeError ''Missing BOT_TOKEN env var'')"
  by (auto simp: startup_def validate_config_def)

lemma startup_bad_block:
  "t \<noteq> [] \<Longrightarrow> blk = None \<or> (\<exists>b. blk = Some b \<and> \<not> isdigit dg b) \<Longrightarrow>
   startup dg (Some t) blk = Inl (RuntimeError ''BLOCK_ID must be numeric and set as env var'')"
  by (auto simp: startup_def validate_config_def isdigit_def)

lemma startup_passes_iff:
  "(\<exists>evs. startup dg tok blk = Inr evs)
     = (\<exists>t b. tok = Some t \<and> t \<noteq> [] \<and> blk = Some b \<and> isdigit dg b)"
  by (auto simp: startup_def validate_config_def isdigit_def split: option.splits if_splits)

lemma main_polls_last:
  "main t = [ApplicationBuild t, AddCommandHandler ''start'', AddCommandHandler ''help'',
             AddCommandHandler ''ads'', AddCallbackQueryHandler, LogBotStarting, RunPolling]
   \<and> last (main t) = RunPolling"
  by (simp add: main_def)

text \<open>
  With the token \<^verbatim>\<open>123456:ABC\<close> and the block identifier \<^verbatim>\<open>123456\<close>, whose characters
  are digits in every table that has the digits 1 to 6, startup goes through.
\<close>

lemma startup_example:
  "list_all dg ''123456'' \<Longrightarrow>
   startup dg (Some ''123456:ABC'') (Some ''123456'')
     = Inr [ApplicationBuild ''123456:ABC'', AddCommandHandler ''start'',
            AddCommandHandler ''help'', AddCommandHandler ''ads'', AddCallbackQueryHandler,
            LogBotStarting, RunPolling]"
  by (simp add: startup_def validate_config_def isdigit_def main_def)

lemma startup_empty_token:
  "startup dg (Some []) (Some ''123456'') = Inl (RuntimeError ''Missing BOT_TOKEN env var'')"
  by (simp add: startup_def validate_config_def)

text \<open>
  C4. Startup is to raise a configuration error when the configured token or block
  identifier is missing or the identifier is not numeric, and otherwise to pass the
  validation and go on to register the handlers and poll. The code does not read the
  variables its comment documents: line 25 reads a variable named \<^verbatim>\<open>int-14249\<close>, and
  line 24 one named by a string literal. So in an environment that sets \<^verbatim>\<open>BOT_TOKEN\<close>
  and \<^verbatim>\<open>BLOCK_ID\<close> as documented, with a block identifier of digits, startup raises,
  whatever the literal of line 24 is: the error about the token when the literal names
  neither variable, the error about the block identifier when it names one of them.
  The documented block identifier passes \<^verbatim>\<open>isdigit\<close> as soon as its six characters are
  digits, and the result does not depend on the table of digits at all.
\<close>

theorem startup_documented_environ_fails:
  "documented_environ ''BOT_TOKEN'' = Some ''123456:ABC''
   \<and> documented_environ ''BLOCK_ID'' = Some ''123456''
   \<and> isdigit unicode_digit ''123456'' = list_all unicode_digit ''123456''
   \<and> startup_from_environ unicode_digit token_name documented_environ
       = Inl (RuntimeError
               (if token_name = ''BOT_TOKEN'' \<or> token_name = ''BLOCK_ID''
                then ''BLOCK_ID must be numeric and set as env var''
                else ''Missing BOT_TOKEN env var''))"
proof -
  have block: "documented_environ ''int-14249'' = None"
    by (simp add: documented_environ_def)
  have tok: "documented_environ ''BOT_TOKEN'' = Some ''123456:ABC''"
    and blk: "documented_environ ''BLOCK_ID'' = Some ''123456''"
    by (simp_all add: documented_environ_def)
  have dig: "isdigit unicode_digit ''123456'' = list_all unicode_digit ''123456''"
    by (simp add: isdigit_def)
  have "startup_from_environ unicode_digit token_name documented_environ
       = Inl (RuntimeError
               (if token_name = ''BOT_TOKEN'' \<or> token_name = ''BLOCK_ID''
                then ''BLOCK_ID must be numeric and set as env var''
                else ''Missing BOT_TOKEN env var''))"
  proof (cases "token_name = ''BOT_TOKEN'' \<or> token_name = ''BLOCK_ID''")
    case True
    then obtain t where "documented_environ token_name = Some t" and "t \<noteq> []"
      using tok blk by auto
    with True block show ?thesis
      by (simp add: startup_from_environ_def startup_bad_block)
  next
    case False
    then have "documented_environ token_name = None"
      by (simp add: documented_environ_def)
    with False show ?thesis
      by (simp add: startup_from_environ_def startup_no_token)
  qed
  with tok blk dig show ?thesis by (intro conjI)
qed

end
